theory Spec2Isabelle
  imports Complex_Main "HOL-Library.AList"
begin

section \<open>The TruckersMP API proxy (main.go)\<close>

text \<open>
  The program is one Go file: a gin router whose GET routes validate their numeric path
  parameters (\<open>validateID\<close>) and hand an upstream path to \<open>proxyRequest\<close>, which
  calls \<open>https://api.truckersmp.com/v2\<close> and relays the reply.

  The embedding follows the file top to bottom. Go strings are byte strings, hence
  \<open>string\<close>. Go's \<open>int\<close> is taken at 64 bits. What main.go calls in the standard library
  and in gin is modelled at the level of their exported behaviour: \<open>strconv.Atoi\<close>, the
  \<open>%d\<close> verb, \<open>http.Header\<close>, \<open>http.NewRequest\<close>, gin's response writer with the
  net/http writer below it, and gin's render functions. What the outside world decides (the
  upstream's answer, the JSON decoder's verdict on a body, the environment variable, the
  clock and gin's route tree lookup) is a field of the record \<open>env\<close>, so every theorem
  holds for each behaviour of those.
\<close>

subsection \<open>Errors and dynamically typed values\<close>

datatype error = Error string

text \<open>
  A Go value of type \<open>interface{}\<close> as main.go builds or receives it: the literals of
  \<open>gin.H\<close> (booleans, strings, an \<open>int64\<close> timestamp) and what \<open>json.Unmarshal\<close>
  stores in an \<open>interface{}\<close> (\<open>nil\<close>, \<open>bool\<close>, \<open>float64\<close>, \<open>string\<close>,
  \<open>[]interface{}\<close>, \<open>map[string]interface{}\<close>). A \<open>float64\<close> is given by its exact
  value.
\<close>

datatype go_value =
    GoNil
  | GoBool bool
  | GoInt int
  | GoFloat64 rat
  | GoString string
  | GoSlice "go_value list"
  | GoMap "(string \<times> go_value) list"

subsection \<open>strconv.Atoi and the verb %d\<close>

definition isDigit :: "char \<Rightarrow> bool" where
  "isDigit ch \<longleftrightarrow> 48 \<le> (of_char ch :: nat) \<and> (of_char ch :: nat) \<le> 57"

definition digits_value :: "string \<Rightarrow> int" where
  "digits_value s = foldl (\<lambda>n ch. n * 10 + (int (of_char ch) - 48)) 0 s"

text \<open>
  \<open>strconv.Atoi\<close>: an optional sign, then one or more decimal digits and nothing else;
  the value has to fit \<open>int\<close>. (The fast path for short strings and \<open>ParseInt(s, 10, 0)\<close>
  for long ones accept the same strings.)
\<close>

definition Atoi :: "string \<Rightarrow> error + int" where
  "Atoi s =
     (let neg = (s \<noteq> [] \<and> hd s = CHR ''-'');
          digits = (if s \<noteq> [] \<and> (hd s = CHR ''-'' \<or> hd s = CHR ''+'') then tl s else s)
      in if digits = [] \<or> \<not> list_all isDigit digits then Inl (Error ''invalid syntax'')
         else let n = (if neg then - digits_value digits else digits_value digits)
              in if n < - (2 ^ 63) \<or> 2 ^ 63 - 1 < n then Inl (Error ''value out of range'')
                 else Inr n)"

definition digit_char :: "nat \<Rightarrow> char" where
  "digit_char n = ''0123456789'' ! n"

fun dec :: "nat \<Rightarrow> string" where
  "dec n = (if n < 10 then [digit_char n] else dec (n div 10) @ [digit_char (n mod 10)])"

text \<open>What \<open>fmt.Sprintf\<close> writes for \<open>%d\<close> and an \<open>int\<close>.\<close>

definition fmt_d :: "int \<Rightarrow> string" where
  "fmt_d i = (if i < 0 then CHR ''-'' # dec (nat (- i)) else dec (nat i))"

subsection \<open>http.Header\<close>

text \<open>
  \<open>http.Header\<close> is a \<open>map[string][]string\<close>. It is an association list here, because
  main.go ranges over two of them; Go leaves the order of that iteration open, and the
  theorems hold for every list, so for every order. \<open>Get\<close>, \<open>Set\<close>, \<open>Add\<close> and \<open>Del\<close>
  canonicalise the key they are given (\<open>textproto.CanonicalMIMEHeaderKey\<close>): a key with a
  byte that is no token character stays as it is, any other gets an upper-case letter at
  its start and after each dash and lower-case letters elsewhere.
\<close>

type_synonym Header = "(string \<times> string list) list"

definition isLower :: "char \<Rightarrow> bool" where
  "isLower ch \<longleftrightarrow> 97 \<le> (of_char ch :: nat) \<and> (of_char ch :: nat) \<le> 122"

definition isUpper :: "char \<Rightarrow> bool" where
  "isUpper ch \<longleftrightarrow> 65 \<le> (of_char ch :: nat) \<and> (of_char ch :: nat) \<le> 90"

definition isTokenByte :: "char \<Rightarrow> bool" where
  "isTokenByte ch \<longleftrightarrow>
     isLower ch \<or> isUpper ch \<or> isDigit ch \<or> ch \<in> set ''!#$%&*+-.^_`|~'' \<or> of_char ch = (39::nat)"

definition toUpper :: "char \<Rightarrow> char" where
  "toUpper ch = char_of (of_char ch - (32::nat))"

definition toLower :: "char \<Rightarrow> char" where
  "toLower ch = char_of (of_char ch + (32::nat))"

fun canonical_from :: "bool \<Rightarrow> string \<Rightarrow> string" where
  "canonical_from upper [] = []"
| "canonical_from upper (ch # s) =
     (let ch' = (if upper \<and> isLower ch then toUpper ch
                 else if \<not> upper \<and> isUpper ch then toLower ch else ch)
      in ch' # canonical_from (ch' = CHR ''-'') s)"

definition CanonicalMIMEHeaderKey :: "string \<Rightarrow> string" where
  "CanonicalMIMEHeaderKey s = (if list_all isTokenByte s then canonical_from True s else s)"

text \<open>Indexing the map: a missing key gives the nil slice.\<close>

definition Header_values :: "Header \<Rightarrow> string \<Rightarrow> string list" where
  "Header_values h key = (case map_of h key of None \<Rightarrow> [] | Some vs \<Rightarrow> vs)"

definition Header_Get :: "Header \<Rightarrow> string \<Rightarrow> string" where
  "Header_Get h key =
     (case Header_values h (CanonicalMIMEHeaderKey key) of [] \<Rightarrow> [] | v # _ \<Rightarrow> v)"

definition Header_Set :: "Header \<Rightarrow> string \<Rightarrow> string \<Rightarrow> Header" where
  "Header_Set h key v = AList.update (CanonicalMIMEHeaderKey key) [v] h"

definition Header_Add :: "Header \<Rightarrow> string \<Rightarrow> string \<Rightarrow> Header" where
  "Header_Add h key v =
     AList.update (CanonicalMIMEHeaderKey key)
       (Header_values h (CanonicalMIMEHeaderKey key) @ [v]) h"

definition Header_Del :: "Header \<Rightarrow> string \<Rightarrow> Header" where
  "Header_Del h key = AList.delete (CanonicalMIMEHeaderKey key) h"

subsection \<open>Requests, responses and the outside world\<close>

text \<open>
  \<open>http.Request\<close>, for the inbound request (\<open>c.Request\<close>: \<open>URL\<close> is its path) and for the
  upstream one. \<open>http.Response\<close> with the outcome of \<open>io.ReadAll(resp.Body)\<close>.
\<close>

record http_Request =
  Method :: string
  URL :: string
  Header :: Header

record http_Response =
  StatusCode :: int
  RespHeader :: Header
  Body :: "error + string"

text \<open>The routes that \<open>setupRoutes\<close> registers, in its order, each for GET.\<close>

datatype route =
    Health | Player | Bans | Servers | GameTime | Events | Event | EventsUser
  | Vtc | VtcById | VtcNews | VtcNewsItem | VtcRoles | VtcRole | VtcMembers | VtcMember
  | VtcEvents | VtcEvent | VtcEventsAttending | VtcPartners | Version | Rules

text \<open>
  What gin's tree of GET routes answers for a path: a route with its parameters, or a
  redirect for a path that only lacks or has one trailing slash, or nothing.
\<close>

datatype lookup = Found route "(string \<times> string) list" | TrailingSlashRedirect | NotFound

record env =
  ORIGIN :: string
  now_Unix :: int
  client_Do :: "http_Request \<Rightarrow> error + http_Response"
  json_Unmarshal :: "string \<Rightarrow> error + go_value"
  getValue :: "string \<Rightarrow> lookup"

subsection \<open>gin.Context and its response writer\<close>

text \<open>
  What is handed to the writer as the body of a response: the JSON text of a value
  (\<open>json.Marshal\<close> inside \<open>c.JSON\<close>) or bytes as they are (\<open>c.Data\<close>).
\<close>

datatype payload = JSON go_value | Data string

text \<open>
  The head of the response. gin's writer counts the header as written from the moment it
  hands its status to net/http (its size is no longer -1); net/http below it has or has
  not yet sent the status line and the header of the response. \<open>Unwritten\<close>: neither.
  \<open>Pending\<close>: gin counts the header as written and net/http has sent none. \<open>Sent\<close>:
  net/http has sent the status line with this code and this header.
\<close>

datatype header_state = Unwritten | Pending | Sent int Header

text \<open>
  The context of one request: the inbound request, the path parameters, gin's response
  writer (the status it will write, the header map, the head of the response, the interim
  1xx responses sent, the writes made to the body) and, as the record of the effect on the
  network, the requests handed to \<open>p.client.Do\<close>.
\<close>

record ctx =
  Request :: http_Request
  Params :: "(string \<times> string) list"
  status :: int
  Writer_Header :: Header
  wrote :: header_state
  interim :: "int list"
  body :: "payload list"
  sent :: "http_Request list"

text \<open>A call returns, or panics with the context as it then is.\<close>

datatype outcome = Returned ctx | Panicked ctx

fun ctx_of :: "outcome \<Rightarrow> ctx" where
  "ctx_of (Returned c) = c"
| "ctx_of (Panicked c) = c"

text \<open>What follows a call runs only if the call returns.\<close>

fun and_then :: "outcome \<Rightarrow> (ctx \<Rightarrow> outcome) \<Rightarrow> outcome" where
  "and_then (Returned c) f = f c"
| "and_then (Panicked c) f = Panicked c"

definition c_Param :: "ctx \<Rightarrow> string \<Rightarrow> string" where
  "c_Param c key = (case map_of (Params c) key of None \<Rightarrow> [] | Some v \<Rightarrow> v)"

definition Written :: "ctx \<Rightarrow> bool" where
  "Written c \<longleftrightarrow> wrote c \<noteq> Unwritten"

text \<open>\<open>c.Status\<close> is the writer's \<open>WriteHeader\<close>, which only records the code.\<close>

definition c_Status :: "int \<Rightarrow> ctx \<Rightarrow> ctx" where
  "c_Status code c =
     (if 0 < code \<and> status c \<noteq> code then (if Written c then c else c\<lparr>status := code\<rparr>) else c)"

text \<open>
  \<open>WriteHeader\<close> of net/http's response writer. A second call is ignored. A code that
  has not three digits is refused with a panic (\<open>checkWriteHeaderCode\<close>). A 1xx code
  other than 101 is sent as an interim response (since Go 1.19), and the response proper
  is still to come. Any other code goes out as the status of the response, with the
  header map as it is at that moment.
\<close>

definition informational :: "int \<Rightarrow> bool" where
  "informational code \<longleftrightarrow> 100 \<le> code \<and> code \<le> 199 \<and> code \<noteq> 101"

definition http_WriteHeader :: "int \<Rightarrow> ctx \<Rightarrow> outcome" where
  "http_WriteHeader code c =
     (case wrote c of
        Sent code' hdr \<Rightarrow> Returned c
      | _ \<Rightarrow>
          if code < 100 \<or> 999 < code then Panicked c
          else if informational code then Returned (c\<lparr>interim := interim c @ [code]\<rparr>)
          else Returned (c\<lparr>wrote := Sent code (Writer_Header c)\<rparr>))"

text \<open>
  Where net/http needs the head of the response and none has been sent, it sends it with
  status 200: before the first write to the body, and when the handler is over.
\<close>

definition WriteHeader_if_none :: "ctx \<Rightarrow> ctx" where
  "WriteHeader_if_none c =
     (case wrote c of Sent code hdr \<Rightarrow> c | _ \<Rightarrow> c\<lparr>wrote := Sent 200 (Writer_Header c)\<rparr>)"

text \<open>
  \<open>Write\<close> of net/http's response writer. The field \<open>body\<close> records the writes; under a
  status that allows no body net/http drops them (see \<open>wire_body\<close> below).
\<close>

definition http_Write :: "payload \<Rightarrow> ctx \<Rightarrow> ctx" where
  "http_Write p c = (let c = WriteHeader_if_none c in c\<lparr>body := body c @ [p]\<rparr>)"

text \<open>
  gin's writer: \<open>WriteHeaderNow\<close> marks the header as written and then calls net/http's
  \<open>WriteHeader\<close> with the recorded status, and \<open>Write\<close> starts with \<open>WriteHeaderNow\<close>.
\<close>

definition WriteHeaderNow :: "ctx \<Rightarrow> outcome" where
  "WriteHeaderNow c =
     (if \<not> Written c then http_WriteHeader (status c) (c\<lparr>wrote := Pending\<rparr>) else Returned c)"

definition Write :: "payload \<Rightarrow> ctx \<Rightarrow> outcome" where
  "Write p c = and_then (WriteHeaderNow c) (\<lambda>c. Returned (http_Write p c))"

definition c_Header :: "string \<Rightarrow> string \<Rightarrow> ctx \<Rightarrow> ctx" where
  "c_Header key v c =
     (if v = [] then c\<lparr>Writer_Header := Header_Del (Writer_Header c) key\<rparr>
      else c\<lparr>Writer_Header := Header_Set (Writer_Header c) key v\<rparr>)"

definition bodyAllowedForStatus :: "int \<Rightarrow> bool" where
  "bodyAllowedForStatus code \<longleftrightarrow> \<not> (100 \<le> code \<and> code \<le> 199) \<and> code \<noteq> 204 \<and> code \<noteq> 304"

definition writeContentType :: "string list \<Rightarrow> ctx \<Rightarrow> ctx" where
  "writeContentType v c =
     (if Header_values (Writer_Header c) ''Content-Type'' = []
      then c\<lparr>Writer_Header := AList.update ''Content-Type'' v (Writer_Header c)\<rparr> else c)"

definition Render :: "int \<Rightarrow> string list \<Rightarrow> payload \<Rightarrow> ctx \<Rightarrow> outcome" where
  "Render code contentType p c =
     (let c = c_Status code c
      in if \<not> bodyAllowedForStatus code then WriteHeaderNow (writeContentType contentType c)
         else Write p (writeContentType contentType c))"

definition c_JSON :: "int \<Rightarrow> go_value \<Rightarrow> ctx \<Rightarrow> outcome" where
  "c_JSON code obj c = Render code [''application/json; charset=utf-8''] (JSON obj) c"

definition c_Data :: "int \<Rightarrow> string \<Rightarrow> string \<Rightarrow> ctx \<Rightarrow> outcome" where
  "c_Data code contentType bytes c = Render code [contentType] (Data bytes) c"

definition c_AbortWithStatus :: "int \<Rightarrow> ctx \<Rightarrow> outcome" where
  "c_AbortWithStatus code c = WriteHeaderNow (c_Status code c)"

text \<open>
  The response as the caller gets it: the status line and the header that net/http has
  sent, and the writes to the body unless the status allows none.
\<close>

definition wire_status :: "ctx \<Rightarrow> int option" where
  "wire_status c = (case wrote c of Sent code hdr \<Rightarrow> Some code | _ \<Rightarrow> None)"

definition wire_header :: "ctx \<Rightarrow> Header" where
  "wire_header c = (case wrote c of Sent code hdr \<Rightarrow> hdr | _ \<Rightarrow> [])"

definition wire_body :: "ctx \<Rightarrow> payload list" where
  "wire_body c =
     (case wrote c of
        Sent code hdr \<Rightarrow> if bodyAllowedForStatus code then body c else []
      | _ \<Rightarrow> [])"

subsection \<open>proxyRequest\<close>

definition TruckersMPAPIBase :: string where
  "TruckersMPAPIBase = ''https://api.truckersmp.com/v2''"

text \<open>\<open>gin.H{"error": true, "message": msg}\<close>\<close>

definition error_H :: "string \<Rightarrow> go_value" where
  "error_H msg = GoMap [(''error'', GoBool True), (''message'', GoString msg)]"

text \<open>
  \<open>url.Parse\<close>, on the URLs that \<open>proxyRequest\<close> builds. They begin with
  \<open>https://api.truckersmp.com/v2\<close>, so the scheme and the host are there and parse,
  and the host ends at the slash of \<open>/v2\<close>. What is left to fail: a control character
  before the fragment, and a percent sign that is not followed by two hexadecimal digits,
  in the path (up to the first question mark) or in the fragment (after the first hash).
\<close>

definition isCTL :: "char \<Rightarrow> bool" where
  "isCTL ch \<longleftrightarrow> (of_char ch :: nat) < 32 \<or> of_char ch = (127::nat)"

definition ishex :: "char \<Rightarrow> bool" where
  "ishex ch \<longleftrightarrow>
     isDigit ch \<or> (97 \<le> (of_char ch :: nat) \<and> (of_char ch :: nat) \<le> 102) \<or>
     (65 \<le> (of_char ch :: nat) \<and> (of_char ch :: nat) \<le> 70)"

fun valid_escapes :: "string \<Rightarrow> bool" where
  "valid_escapes [] = True"
| "valid_escapes (ch # s) =
     (if ch = CHR ''%''
      then (case s of a # b # rest \<Rightarrow> ishex a \<and> ishex b \<and> valid_escapes rest | _ \<Rightarrow> False)
      else valid_escapes s)"

definition url_Parse :: "string \<Rightarrow> error option" where
  "url_Parse rawURL =
     (let u = takeWhile (\<lambda>ch. ch \<noteq> CHR ''#'') rawURL;
          frag = drop 1 (dropWhile (\<lambda>ch. ch \<noteq> CHR ''#'') rawURL);
          path = takeWhile (\<lambda>ch. ch \<noteq> CHR ''?'') u
      in if list_ex isCTL u then Some (Error ''net/url: invalid control character in URL'')
         else if \<not> valid_escapes path \<or> \<not> valid_escapes frag
         then Some (Error ''invalid URL escape'')
         else None)"

text \<open>
  \<open>http.NewRequest(method, url, nil)\<close> returns a request and an error: the empty method
  stands for GET, the method has to be a token and the URL has to parse. It returns either
  a request with an empty header map and no error, or the nil request and an error.
\<close>

definition validMethod :: "string \<Rightarrow> bool" where
  "validMethod method \<longleftrightarrow> method \<noteq> [] \<and> list_all isTokenByte method"

definition http_NewRequest :: "string \<Rightarrow> string \<Rightarrow> http_Request option \<times> error option" where
  "http_NewRequest method url =
     (let method = (if method = [] then ''GET'' else method)
      in if \<not> validMethod method then (None, Some (Error ''net/http: invalid method''))
         else case url_Parse url of
                Some err \<Rightarrow> (None, Some err)
              | None \<Rightarrow> (Some \<lparr>Method = method, URL = url, Header = []\<rparr>, None))"

text \<open>Lines 51 to 55: every value of every inbound header is added to the request.\<close>

definition copy_request_headers :: "Header \<Rightarrow> http_Request \<Rightarrow> http_Request" where
  "copy_request_headers hdr req =
     fold (\<lambda>(key, values) req.
             fold (\<lambda>v req. req\<lparr>Header := Header_Add (Header req) key v\<rparr>) values req)
          hdr req"

text \<open>Lines 79 to 83: every value of every upstream header goes through \<open>c.Header\<close>.\<close>

definition copy_response_headers :: "Header \<Rightarrow> ctx \<Rightarrow> ctx" where
  "copy_response_headers hdr c =
     fold (\<lambda>(key, values) c. fold (\<lambda>v c. c_Header key v c) values c) hdr c"

text \<open>
  \<open>proxyRequest\<close>. Line 40 reads \<open>req.Header\<close> before line 42 looks at \<open>err\<close>: on
  the nil request that is a nil pointer dereference, a panic. The calls of \<open>c.JSON\<close> and
  \<open>c.Data\<close> are the last thing on each path, so the function panics where they do.
\<close>

definition proxyRequest :: "env \<Rightarrow> ctx \<Rightarrow> string \<Rightarrow> outcome" where
  "proxyRequest env c endpoint =
     (let url = TruckersMPAPIBase @ endpoint;
          (req, err) = http_NewRequest (Method (Request c)) url
      in case req of
           None \<Rightarrow> Panicked c
         | Some req \<Rightarrow>
             (let req = req\<lparr>Header := Header_Set (Header req) ''User-Agent'' ''PostmanRuntime/7.36.1''\<rparr>;
                  req = req\<lparr>Header := Header_Set (Header req) ''Accept'' ''application/json''\<rparr>
              in if err \<noteq> None
                 then c_JSON 500 (error_H ''Failed to create request'') c
                 else
                   (let req = copy_request_headers (Header (Request c)) req;
                        c = c\<lparr>sent := sent c @ [req]\<rparr>
                    in case client_Do env req of
                         Inl err \<Rightarrow>
                           c_JSON 500 (error_H ''Failed to fetch data from TruckersMP API'') c
                       | Inr resp \<Rightarrow>
                           (case Body resp of
                              Inl err \<Rightarrow> c_JSON 500 (error_H ''Failed to read response'') c
                            | Inr bytes \<Rightarrow>
                                (let c = copy_response_headers (RespHeader resp) c;
                                     c = c_Status (StatusCode resp) c
                                 in case json_Unmarshal env bytes of
                                      Inr jsonResponse \<Rightarrow>
                                        c_JSON (StatusCode resp) jsonResponse c
                                    | Inl err \<Rightarrow>
                                        c_Data (StatusCode resp)
                                          (Header_Get (RespHeader resp) ''Content-Type'')
                                          bytes c)))))"

subsection \<open>validateID and the routes\<close>

text \<open>
  \<open>validateID\<close> gives the outcome of its call of \<open>c.JSON\<close>, if it makes one, and its
  two results.
\<close>

definition validateID :: "ctx \<Rightarrow> string \<Rightarrow> outcome \<times> int \<times> bool" where
  "validateID c paramName =
     (let idStr = c_Param c paramName
      in case Atoi idStr of
           Inl err \<Rightarrow>
             (c_JSON 400 (error_H (''Invalid '' @ paramName @ '' parameter'')) c, 0, False)
         | Inr id' \<Rightarrow>
             if id' < 0
             then (c_JSON 400 (error_H (''Invalid '' @ paramName @ '' parameter'')) c, 0, False)
             else (Returned c, id', True))"

text \<open>
  The handlers of \<open>setupRoutes\<close>, one equation for each, in the order of the file. The
  forwarder they call is the argument \<open>fwd\<close>; in the program it is \<open>p.proxyRequest\<close>.
  A handler panics where \<open>validateID\<close> or the forwarder does.
\<close>

fun handler :: "env \<Rightarrow> (ctx \<Rightarrow> string \<Rightarrow> outcome) \<Rightarrow> route \<Rightarrow> ctx \<Rightarrow> outcome" where
  "handler env fwd Health c =
     c_JSON 200 (GoMap [(''status'', GoString ''healthy''),
                        (''service'', GoString ''TruckersMP API Proxy''),
                        (''timestamp'', GoInt (now_Unix env))]) c"
| "handler env fwd Player c =
     (case validateID c ''id'' of
        (Returned c, id', valid) \<Rightarrow> if valid then fwd c (''/player/'' @ fmt_d id') else Returned c
      | (Panicked c, id', valid) \<Rightarrow> Panicked c)"
| "handler env fwd Bans c =
     (case validateID c ''id'' of
        (Returned c, id', valid) \<Rightarrow> if valid then fwd c (''/bans/'' @ fmt_d id') else Returned c
      | (Panicked c, id', valid) \<Rightarrow> Panicked c)"
| "handler env fwd Servers c = fwd c ''/servers''"
| "handler env fwd GameTime c = fwd c ''/game_time''"
| "handler env fwd Events c = fwd c ''/events''"
| "handler env fwd Event c =
     (case validateID c ''id'' of
        (Returned c, id', valid) \<Rightarrow> if valid then fwd c (''/events/'' @ fmt_d id') else Returned c
      | (Panicked c, id', valid) \<Rightarrow> Panicked c)"
| "handler env fwd EventsUser c =
     (case validateID c ''id'' of
        (Returned c, id', valid) \<Rightarrow> if valid then fwd c (''/events/user/'' @ fmt_d id') else Returned c
      | (Panicked c, id', valid) \<Rightarrow> Panicked c)"
| "handler env fwd Vtc c = fwd c ''/vtc''"
| "handler env fwd VtcById c =
     (case validateID c ''id'' of
        (Returned c, id', valid) \<Rightarrow> if valid then fwd c (''/vtc/'' @ fmt_d id') else Returned c
      | (Panicked c, id', valid) \<Rightarrow> Panicked c)"
| "handler env fwd VtcNews c =
     (case validateID c ''id'' of
        (Returned c, id', valid) \<Rightarrow> if valid then fwd c (''/vtc/'' @ fmt_d id' @ ''/news'') else Returned c
      | (Panicked c, id', valid) \<Rightarrow> Panicked c)"
| "handler env fwd VtcNewsItem c =
     (case validateID c ''id'' of
        (Returned c, id', valid) \<Rightarrow>
          if valid
          then (case validateID c ''news_id'' of
                  (Returned c, newsID, valid) \<Rightarrow>
                    if valid then fwd c (''/vtc/'' @ fmt_d id' @ ''/news/'' @ fmt_d newsID) else Returned c
                | (Panicked c, newsID, valid) \<Rightarrow> Panicked c)
          else Returned c
      | (Panicked c, id', valid) \<Rightarrow> Panicked c)"
| "handler env fwd VtcRoles c =
     (case validateID c ''id'' of
        (Returned c, id', valid) \<Rightarrow> if valid then fwd c (''/vtc/'' @ fmt_d id' @ ''/roles'') else Returned c
      | (Panicked c, id', valid) \<Rightarrow> Panicked c)"
| "handler env fwd VtcRole c =
     (case validateID c ''id'' of
        (Returned c, id', valid) \<Rightarrow>
          if valid
          then (case validateID c ''role_id'' of
                  (Returned c, roleID, valid) \<Rightarrow>
                    if valid then fwd c (''/vtc/'' @ fmt_d id' @ ''/role/'' @ fmt_d roleID) else Returned c
                | (Panicked c, roleID, valid) \<Rightarrow> Panicked c)
          else Returned c
      | (Panicked c, id', valid) \<Rightarrow> Panicked c)"
| "handler env fwd VtcMembers c =
     (case validateID c ''id'' of
        (Returned c, id', valid) \<Rightarrow> if valid then fwd c (''/vtc/'' @ fmt_d id' @ ''/members'') else Returned c
      | (Panicked c, id', valid) \<Rightarrow> Panicked c)"
| "handler env fwd VtcMember c =
     (case validateID c ''id'' of
        (Returned c, id', valid) \<Rightarrow>
          if valid
          then (case validateID c ''member_id'' of
                  (Returned c, memberID, valid) \<Rightarrow>
                    if valid then fwd c (''/vtc/'' @ fmt_d id' @ ''/member/'' @ fmt_d memberID) else Returned c
                | (Panicked c, memberID, valid) \<Rightarrow> Panicked c)
          else Returned c
      | (Panicked c, id', valid) \<Rightarrow> Panicked c)"
| "handler env fwd VtcEvents c =
     (case validateID c ''id'' of
        (Returned c, id', valid) \<Rightarrow> if valid then fwd c (''/vtc/'' @ fmt_d id' @ ''/events'') else Returned c
      | (Panicked c, id', valid) \<Rightarrow> Panicked c)"
| "handler env fwd VtcEvent c =
     (case validateID c ''id'' of
        (Returned c, id', valid) \<Rightarrow>
          if valid
          then (case validateID c ''event_id'' of
                  (Returned c, eventID, valid) \<Rightarrow>
                    if valid then fwd c (''/vtc/'' @ fmt_d id' @ ''/events/'' @ fmt_d eventID) else Returned c
                | (Panicked c, eventID, valid) \<Rightarrow> Panicked c)
          else Returned c
      | (Panicked c, id', valid) \<Rightarrow> Panicked c)"
| "handler env fwd VtcEventsAttending c =
     (case validateID c ''id'' of
        (Returned c, id', valid) \<Rightarrow> if valid then fwd c (''/vtc/'' @ fmt_d id' @ ''/events/attending'') else Returned c
      | (Panicked c, id', valid) \<Rightarrow> Panicked c)"
| "handler env fwd VtcPartners c =
     (case validateID c ''id'' of
        (Returned c, id', valid) \<Rightarrow> if valid then fwd c (''/vtc/'' @ fmt_d id' @ ''/partners'') else Returned c
      | (Panicked c, id', valid) \<Rightarrow> Panicked c)"
| "handler env fwd Version c = fwd c ''/version''"
| "handler env fwd Rules c = fwd c ''/rules''"

text \<open>The path under which \<open>setupRoutes\<close> registers each route.\<close>

fun pattern :: "route \<Rightarrow> string" where
  "pattern Health = ''/health''"
| "pattern Player = ''/player/:id''"
| "pattern Bans = ''/bans/:id''"
| "pattern Servers = ''/servers''"
| "pattern GameTime = ''/game_time''"
| "pattern Events = ''/events''"
| "pattern Event = ''/events/:id''"
| "pattern EventsUser = ''/events/user/:id''"
| "pattern Vtc = ''/vtc''"
| "pattern VtcById = ''/vtc/:id''"
| "pattern VtcNews = ''/vtc/:id/news''"
| "pattern VtcNewsItem = ''/vtc/:id/news/:news_id''"
| "pattern VtcRoles = ''/vtc/:id/roles''"
| "pattern VtcRole = ''/vtc/:id/role/:role_id''"
| "pattern VtcMembers = ''/vtc/:id/members''"
| "pattern VtcMember = ''/vtc/:id/member/:member_id''"
| "pattern VtcEvents = ''/vtc/:id/events''"
| "pattern VtcEvent = ''/vtc/:id/events/:event_id''"
| "pattern VtcEventsAttending = ''/vtc/:id/events/attending''"
| "pattern VtcPartners = ''/vtc/:id/partners''"
| "pattern Version = ''/version''"
| "pattern Rules = ''/rules''"

subsection \<open>setupRoutes: middleware, catch-all and dispatch\<close>

text \<open>
  A middleware is a function of the rest of the chain: calling \<open>c.Next()\<close> runs it, and
  after \<open>c.Abort\<close> nothing of it runs. Lines 121 to 132 are the middleware of main.go.
\<close>

definition cors :: "env \<Rightarrow> (ctx \<Rightarrow> outcome) \<Rightarrow> ctx \<Rightarrow> outcome" where
  "cors env c_Next c =
     (let allowedOrigin = (if ORIGIN env = [] then ''*'' else ORIGIN env);
          c = c_Header ''Access-Control-Allow-Origin'' allowedOrigin c;
          c = c_Header ''Access-Control-Allow-Methods'' ''GET, POST, PUT, DELETE, OPTIONS'' c;
          c = c_Header ''Access-Control-Allow-Headers'' ''Content-Type, Authorization'' c
      in if Method (Request c) = ''OPTIONS'' then c_AbortWithStatus 204 c
         else c_Next c)"

text \<open>Lines 274 to 279.\<close>

definition noRoute :: "ctx \<Rightarrow> outcome" where
  "noRoute c = c_JSON 404 (error_H ''Endpoint not found'') c"

text \<open>
  \<open>gin.Default()\<close> puts a logger, which changes nothing here, and \<open>Recovery\<close> in front of
  every chain: a panic below it ends as \<open>c.AbortWithStatus(500)\<close>.
\<close>

definition Recovery :: "(ctx \<Rightarrow> outcome) \<Rightarrow> ctx \<Rightarrow> outcome" where
  "Recovery c_Next c =
     (case c_Next c of
        Returned c' \<Rightarrow> Returned c'
      | Panicked c' \<Rightarrow> c_AbortWithStatus 500 c')"

definition new_Context :: "http_Request \<Rightarrow> (string \<times> string) list \<Rightarrow> ctx" where
  "new_Context r ps =
     \<lparr>Request = r, Params = ps, status = 200, Writer_Header = [], wrote = Unwritten,
      interim = [], body = [], sent = []\<rparr>"

text \<open>gin's \<open>serveError(c, 404, default404Body)\<close> around the catch-all chain.\<close>

definition serveError :: "(ctx \<Rightarrow> outcome) \<Rightarrow> ctx \<Rightarrow> outcome" where
  "serveError chain c =
     and_then (chain (c\<lparr>status := 404\<rparr>))
       (\<lambda>c. if Written c then Returned c
            else if status c = 404
            then Write (Data ''404 page not found'')
                   (c\<lparr>Writer_Header :=
                        AList.update ''Content-Type'' [''text/plain''] (Writer_Header c)\<rparr>)
            else WriteHeaderNow c)"

text \<open>
  When the handler has returned, net/http completes the response (\<open>finishRequest\<close>),
  sending the head with status 200 if none has been sent. A panic that reaches net/http
  ends the connection instead.
\<close>

definition finishRequest :: "outcome \<Rightarrow> outcome" where
  "finishRequest out =
     (case out of Returned c \<Rightarrow> Returned (WriteHeader_if_none c) | Panicked c \<Rightarrow> Panicked c)"

text \<open>
  The engine that \<open>setupRoutes\<close> returns, as gin's \<open>handleHTTPRequest\<close> runs it on a
  request, below net/http. Every route is registered with \<open>r.GET\<close>, so only GET has a
  tree; after the chain of a route gin calls \<open>WriteHeaderNow\<close>. \<open>None\<close> stands for gin's
  own redirect of a path with a surplus or missing trailing slash, in which nothing of
  main.go runs.
\<close>

definition setupRoutes :: "env \<Rightarrow> http_Request \<Rightarrow> outcome option" where
  "setupRoutes env r =
     (if Method r = ''GET''
      then (case getValue env (URL r) of
              Found rt ps \<Rightarrow>
                Some (finishRequest
                  (and_then (Recovery (cors env (handler env (proxyRequest env) rt))
                               (new_Context r ps))
                            WriteHeaderNow))
            | TrailingSlashRedirect \<Rightarrow> None
            | NotFound \<Rightarrow>
                Some (finishRequest (serveError (Recovery (cors env noRoute)) (new_Context r []))))
      else Some (finishRequest (serveError (Recovery (cors env noRoute)) (new_Context r []))))"

text \<open>The response that a request is served with, if it is completed.\<close>

definition served_status :: "outcome option \<Rightarrow> int option" where
  "served_status res = (case res of Some (Returned c) \<Rightarrow> wire_status c | _ \<Rightarrow> None)"



subsection \<open>The vocabulary of the specification\<close>

text \<open>A path parameter is valid when it parses as an integer that is not negative.\<close>

definition valid_param :: "string \<Rightarrow> bool" where
  "valid_param s = (case Atoi s of Inl err \<Rightarrow> False | Inr n \<Rightarrow> 0 \<le> n)"

definition param_value :: "string \<Rightarrow> int" where
  "param_value s = (case Atoi s of Inl err \<Rightarrow> 0 | Inr n \<Rightarrow> n)"

text \<open>The segments of a path between its slashes.\<close>

fun segments :: "string \<Rightarrow> string list" where
  "segments [] = [[]]"
| "segments (ch # s) =
     (if ch = CHR ''/'' then [] # segments s
      else case segments s of seg # segs \<Rightarrow> (ch # seg) # segs | [] \<Rightarrow> [[ch]])"

fun unsegments :: "string list \<Rightarrow> string" where
  "unsegments [] = []"
| "unsegments [seg] = seg"
| "unsegments (seg # segs) = seg @ CHR ''/'' # unsegments segs"

definition is_param :: "string \<Rightarrow> bool" where
  "is_param seg \<longleftrightarrow> seg \<noteq> [] \<and> hd seg = CHR '':''"

text \<open>The names of the path parameters of a route, from left to right.\<close>

definition param_names :: "route \<Rightarrow> string list" where
  "param_names rt = map tl (filter is_param (segments (pattern rt)))"

text \<open>
  The declared mapping of a route: the upstream path is the local pattern with each
  parameter replaced by the decimal form of its value.
\<close>

definition declared_mapping :: "route \<Rightarrow> ctx \<Rightarrow> string" where
  "declared_mapping rt c =
     unsegments (map (\<lambda>seg. if is_param seg then fmt_d (param_value (c_Param c (tl seg))) else seg)
                     (segments (pattern rt)))"

text \<open>
  The context in which \<open>validateID\<close> leaves a parameter that is not valid: that of its
  call of \<open>c.JSON\<close>.
\<close>

definition invalid_response :: "string \<Rightarrow> ctx \<Rightarrow> ctx" where
  "invalid_response name c =
     ctx_of (c_JSON 400 (error_H (''Invalid '' @ name @ '' parameter'')) c)"

text \<open>
  The upstream request as lines 39 to 55 leave it, when \<open>http.NewRequest\<close> has
  succeeded, and the two headers that lines 40 and 41 set.
\<close>

definition default_headers :: Header where
  "default_headers =
     [(''User-Agent'', [''PostmanRuntime/7.36.1'']), (''Accept'', [''application/json''])]"

definition upstream_request :: "ctx \<Rightarrow> string \<Rightarrow> http_Request" where
  "upstream_request c endpoint =
     copy_request_headers (Header (Request c))
       \<lparr>Method = (if Method (Request c) = [] then ''GET'' else Method (Request c)),
        URL = TruckersMPAPIBase @ endpoint,
        Header = Header_Set (Header_Set [] ''User-Agent'' ''PostmanRuntime/7.36.1'')
                   ''Accept'' ''application/json''\<rparr>"


text \<open>
  The status codes that net/http sends as the status of a response: three digits, and
  not an interim 1xx.
\<close>

definition final_status :: "int \<Rightarrow> bool" where
  "final_status code \<longleftrightarrow> 100 \<le> code \<and> code \<le> 999 \<and> \<not> informational code"

text \<open>A string without control characters and percent signs.\<close>

definition plain :: "string \<Rightarrow> bool" where
  "plain s = list_all (\<lambda>ch. \<not> isCTL ch \<and> ch \<noteq> CHR ''%'') s"

subsection \<open>Numbers through json.Unmarshal\<close>

text \<open>
  \<open>json.Unmarshal\<close> into an \<open>interface{}\<close> stores every JSON number as a
  \<open>float64\<close>: \<open>strconv.ParseFloat(s, 64)\<close>, the nearest float64 with ties to the even
  significand, and an error beyond the largest one. This is that conversion for a
  document that is one unsigned integer literal; the decoder below knows no other
  document.
\<close>

fun bit_length :: "nat \<Rightarrow> nat" where
  "bit_length n = (if n = 0 then 0 else Suc (bit_length (n div 2)))"

definition nearest_float64 :: "nat \<Rightarrow> nat" where
  "nearest_float64 n =
     (let e = bit_length n - 53; q = n div 2 ^ e; r = n mod 2 ^ e
      in if 2 ^ e < 2 * r \<or> (2 * r = 2 ^ e \<and> odd q) then (q + 1) * 2 ^ e else q * 2 ^ e)"

definition Unmarshal_integer :: "string \<Rightarrow> error + go_value" where
  "Unmarshal_integer s =
     (if s = [] \<or> \<not> list_all isDigit s \<or> (hd s = CHR ''0'' \<and> s \<noteq> ''0'')
      then Inl (Error ''invalid character'')
      else if 2 ^ 1024 - 2 ^ 970 \<le> nat (digits_value s)
      then Inl (Error ''cannot unmarshal number into Go value of type float64'')
      else Inr (GoFloat64 (of_nat (nearest_float64 (nat (digits_value s))))))"

subsection \<open>Concrete requests and upstreams\<close>

definition GET :: "string \<Rightarrow> http_Request" where
  "GET path = \<lparr>Method = ''GET'', URL = path, Header = []\<rparr>"

text \<open>
  An outside world in which every upstream call has the same outcome. Its route tree
  knows \<open>/servers\<close>.
\<close>

definition servers_only :: "string \<Rightarrow> lookup" where
  "servers_only path = (if path = ''/servers'' then Found Servers [] else NotFound)"

definition upstream :: "(error + http_Response) \<Rightarrow> (string \<Rightarrow> error + go_value) \<Rightarrow> env" where
  "upstream outcome decode =
     \<lparr>ORIGIN = [], now_Unix = 0, client_Do = (\<lambda>req. outcome), json_Unmarshal = decode,
      getValue = servers_only\<rparr>"

definition no_JSON :: "string \<Rightarrow> error + go_value" where
  "no_JSON s = Inl (Error ''invalid character'')"

definition unreachable :: env where
  "unreachable = upstream (Inl (Error ''dial tcp: i/o timeout'')) no_JSON"

definition reply :: "int \<Rightarrow> Header \<Rightarrow> string \<Rightarrow> error + http_Response" where
  "reply code hdr bytes = Inr \<lparr>StatusCode = code, RespHeader = hdr, Body = Inr bytes\<rparr>"

section \<open>Properties\<close>

subsection \<open>Decimal numbers\<close>

declare dec.simps [simp del]

lemma digit_char_code: "d < 10 \<Longrightarrow> of_char (digit_char d) = 48 + d"
  unfolding digit_char_def by (auto simp: less_Suc_eq numeral_eq_Suc)

lemma isDigit_digit_char: "d < 10 \<Longrightarrow> isDigit (digit_char d)"
  by (simp add: isDigit_def digit_char_code)

lemma digit_char_zero: "d < 10 \<Longrightarrow> digit_char d = CHR ''0'' \<longleftrightarrow> d = 0"
  unfolding digit_char_def by (auto simp: less_Suc_eq numeral_eq_Suc)

lemma dec_nonempty: "dec n \<noteq> []"
  by (subst dec.simps) simp

lemma dec_digits: "list_all isDigit (dec n)"
proof (induction n rule: dec.induct)
  case (1 n)
  show ?case
  proof (cases "n < 10")
    case True
    then show ?thesis by (subst dec.simps) (simp add: isDigit_digit_char)
  next
    case False
    with 1 show ?thesis by (subst dec.simps) (simp add: isDigit_digit_char)
  qed
qed

lemma digits_value_snoc:
  "digits_value (s @ [ch]) = digits_value s * 10 + (int (of_char ch) - 48)"
  by (simp add: digits_value_def)

lemma digits_value_dec: "digits_value (dec n) = int n"
proof (induction n rule: dec.induct)
  case (1 n)
  show ?case
  proof (cases "n < 10")
    case True
    then show ?thesis by (subst dec.simps) (simp add: digits_value_def digit_char_code)
  next
    case False
    with 1 have "digits_value (dec (n div 10)) = int (n div 10)" by simp
    moreover have "int (n div 10) * 10 + int (n mod 10) = int n"
      by (simp add: zdiv_int zmod_int)
    ultimately show ?thesis using False
      by (subst dec.simps) (simp add: digits_value_snoc digit_char_code)
  qed
qed

lemma hd_dec_digit: "isDigit (hd (dec n))"
  using dec_digits [of n] dec_nonempty [of n] by (cases "dec n") simp_all

lemma hd_dec_no_sign: "hd (dec n) \<noteq> CHR ''-''" "hd (dec n) \<noteq> CHR ''+''"
  using hd_dec_digit [of n] by (auto simp: isDigit_def)

lemma hd_dec_zero: "hd (dec n) = CHR ''0'' \<longleftrightarrow> n = 0"
proof (induction n rule: dec.induct)
  case (1 n)
  show ?case
  proof (cases "n < 10")
    case True
    then show ?thesis by (subst dec.simps) (simp add: digit_char_zero)
  next
    case False
    with 1 have "hd (dec (n div 10)) = CHR ''0'' \<longleftrightarrow> n div 10 = 0" by simp
    with False show ?thesis
      by (subst dec.simps) (simp add: dec_nonempty)
  qed
qed

text \<open>What \<open>%d\<close> writes for a number that is not negative, \<open>Atoi\<close> reads back.\<close>

lemma Atoi_fmt_d:
  assumes "0 \<le> n" and "n \<le> 2 ^ 63 - 1"
  shows "Atoi (fmt_d n) = Inr n"
  using assms
  by (simp add: Atoi_def fmt_d_def dec_nonempty dec_digits digits_value_dec hd_dec_no_sign Let_def)

lemma Atoi_range: "Atoi s = Inr n \<Longrightarrow> - (2 ^ 63) \<le> n \<and> n \<le> 2 ^ 63 - 1"
  by (auto simp: Atoi_def Let_def split: if_splits)

lemma valid_param_examples:
  "\<not> valid_param ''abc''" "\<not> valid_param ''x''" "valid_param ''5''" "valid_param ''12''"
  "param_value ''5'' = 5" "param_value ''12'' = 12"
  by (simp_all add: valid_param_def param_value_def Atoi_def isDigit_def digits_value_def)

subsection \<open>The response writer\<close>

lemma c_Header_fields [simp]:
  "Request (c_Header k v c) = Request c" "Params (c_Header k v c) = Params c"
  "status (c_Header k v c) = status c" "wrote (c_Header k v c) = wrote c"
  "interim (c_Header k v c) = interim c" "Written (c_Header k v c) = Written c"
  "body (c_Header k v c) = body c" "sent (c_Header k v c) = sent c"
  by (simp_all add: c_Header_def Written_def)

lemma c_Status_fields [simp]:
  "Request (c_Status code c) = Request c" "Params (c_Status code c) = Params c"
  "Writer_Header (c_Status code c) = Writer_Header c" "wrote (c_Status code c) = wrote c"
  "interim (c_Status code c) = interim c" "Written (c_Status code c) = Written c"
  "body (c_Status code c) = body c" "sent (c_Status code c) = sent c"
  by (simp_all add: c_Status_def Written_def)

lemma c_Status_status:
  "status (c_Status code c) = (if 0 < code \<and> \<not> Written c then code else status c)"
  by (simp add: c_Status_def)

lemma writeContentType_fields [simp]:
  "Request (writeContentType v c) = Request c" "Params (writeContentType v c) = Params c"
  "status (writeContentType v c) = status c" "wrote (writeContentType v c) = wrote c"
  "interim (writeContentType v c) = interim c" "Written (writeContentType v c) = Written c"
  "body (writeContentType v c) = body c" "sent (writeContentType v c) = sent c"
  by (simp_all add: writeContentType_def Written_def)

lemma bodyAllowed_literals [simp]:
  "bodyAllowedForStatus 400" "bodyAllowedForStatus 404" "bodyAllowedForStatus 500"
  "bodyAllowedForStatus 200" "\<not> bodyAllowedForStatus 204"
  by (simp_all add: bodyAllowedForStatus_def)

lemma final_status_literals [simp]:
  "final_status 200" "final_status 204" "final_status 400" "final_status 404" "final_status 500"
  by (simp_all add: final_status_def informational_def)

lemma new_Context_fields [simp]:
  "Request (new_Context r ps) = r" "Params (new_Context r ps) = ps"
  "status (new_Context r ps) = 200" "Writer_Header (new_Context r ps) = []"
  "wrote (new_Context r ps) = Unwritten" "\<not> Written (new_Context r ps)"
  "interim (new_Context r ps) = []" "body (new_Context r ps) = []" "sent (new_Context r ps) = []"
  by (simp_all add: new_Context_def Written_def)

text \<open>What no call of the writer changes, whether it returns or panics.\<close>

lemma WriteHeaderNow_fields [simp]:
  "Request (ctx_of (WriteHeaderNow c)) = Request c" "Params (ctx_of (WriteHeaderNow c)) = Params c"
  "Writer_Header (ctx_of (WriteHeaderNow c)) = Writer_Header c"
  "status (ctx_of (WriteHeaderNow c)) = status c" "body (ctx_of (WriteHeaderNow c)) = body c"
  "sent (ctx_of (WriteHeaderNow c)) = sent c" "Written (ctx_of (WriteHeaderNow c))"
  by (simp_all add: WriteHeaderNow_def http_WriteHeader_def Written_def)

lemma Write_fields [simp]:
  "Request (ctx_of (Write p c)) = Request c" "Params (ctx_of (Write p c)) = Params c"
  "Writer_Header (ctx_of (Write p c)) = Writer_Header c"
  "status (ctx_of (Write p c)) = status c" "sent (ctx_of (Write p c)) = sent c"
  "Written (ctx_of (Write p c))"
  by (simp_all add: Write_def WriteHeaderNow_def http_WriteHeader_def http_Write_def
      WriteHeader_if_none_def Written_def Let_def split: header_state.splits)

lemma Render_fields [simp]:
  "Request (ctx_of (Render code ct p c)) = Request c"
  "Params (ctx_of (Render code ct p c)) = Params c"
  "sent (ctx_of (Render code ct p c)) = sent c"
  "Writer_Header (ctx_of (Render code ct p c)) = Writer_Header (writeContentType ct c)"
  "status (ctx_of (Render code ct p c)) = (if 0 < code \<and> \<not> Written c then code else status c)"
  "Written (ctx_of (Render code ct p c))"
  by (simp_all add: Render_def Let_def c_Status_status) (simp_all add: writeContentType_def)

lemma c_AbortWithStatus_fields [simp]:
  "Request (ctx_of (c_AbortWithStatus code c)) = Request c"
  "Params (ctx_of (c_AbortWithStatus code c)) = Params c"
  "sent (ctx_of (c_AbortWithStatus code c)) = sent c"
  "body (ctx_of (c_AbortWithStatus code c)) = body c"
  "Writer_Header (ctx_of (c_AbortWithStatus code c)) = Writer_Header c"
  "status (ctx_of (c_AbortWithStatus code c)) = (if 0 < code \<and> \<not> Written c then code else status c)"
  "Written (ctx_of (c_AbortWithStatus code c))"
  by (simp_all add: c_AbortWithStatus_def c_Status_status)

text \<open>
  Once the header counts as written, \<open>WriteHeaderNow\<close> does nothing. Before that, it
  sends the recorded status if net/http takes it as the status of a response, and panics
  if the status has not three digits.
\<close>

lemma WriteHeaderNow_Written: "Written c \<Longrightarrow> WriteHeaderNow c = Returned c"
  by (simp add: WriteHeaderNow_def)

lemma WriteHeaderNow_final:
  "\<not> Written c \<Longrightarrow> final_status (status c) \<Longrightarrow>
   WriteHeaderNow c = Returned (c\<lparr>wrote := Sent (status c) (Writer_Header c)\<rparr>)"
  by (auto simp: WriteHeaderNow_def http_WriteHeader_def Written_def final_status_def)

lemma WriteHeaderNow_refused:
  "\<not> Written c \<Longrightarrow> status c < 100 \<or> 999 < status c \<Longrightarrow>
   WriteHeaderNow c = Panicked (c\<lparr>wrote := Pending\<rparr>)"
  by (auto simp: WriteHeaderNow_def http_WriteHeader_def Written_def)

text \<open>
  Rendering with a code that net/http takes as the status of a response returns, on every
  context. If nothing was written before, that code and the header map with the content
  type go out, and the body after them.
\<close>

lemma Render_final:
  assumes "final_status code"
  shows "Render code ct p c = Returned (ctx_of (Render code ct p c))"
    and "body (ctx_of (Render code ct p c)) =
           (if bodyAllowedForStatus code then body c @ [p] else body c)"
    and "\<not> Written c \<Longrightarrow>
           wrote (ctx_of (Render code ct p c)) = Sent code (Writer_Header (writeContentType ct c))"
proof -
  from assms have pos: "0 < code" by (simp add: final_status_def)
  define c1 where "c1 = writeContentType ct (c_Status code c)"
  have c1: "Written c1 = Written c" "body c1 = body c"
    "Writer_Header c1 = Writer_Header (writeContentType ct c)"
    "\<not> Written c \<Longrightarrow> status c1 = code"
    using pos by (simp_all add: c1_def c_Status_status) (simp add: writeContentType_def)
  have now: "WriteHeaderNow c1 =
      (if Written c then Returned c1 else Returned (c1\<lparr>wrote := Sent code (Writer_Header c1)\<rparr>))"
    using assms c1 by (simp add: WriteHeaderNow_Written WriteHeaderNow_final)
  have run: "Render code ct p c =
      (if bodyAllowedForStatus code then Write p c1 else WriteHeaderNow c1)"
    by (simp add: Render_def Let_def c1_def)
  show "Render code ct p c = Returned (ctx_of (Render code ct p c))"
    unfolding run by (simp add: Write_def now)
  show "body (ctx_of (Render code ct p c)) =
      (if bodyAllowedForStatus code then body c @ [p] else body c)"
    unfolding run
    by (simp add: Write_def now http_Write_def WriteHeader_if_none_def c1 Let_def
        split: header_state.splits)
  show "wrote (ctx_of (Render code ct p c)) = Sent code (Writer_Header (writeContentType ct c))"
    if "\<not> Written c"
    unfolding run using that
    by (simp add: Write_def now http_Write_def WriteHeader_if_none_def c1 Let_def)
qed

text \<open>
  A code that is not positive is not recorded: the status recorded before goes out, and
  the body after it.
\<close>

lemma Render_ignored:
  assumes "code \<le> 0" and "\<not> Written c" and "final_status (status c)"
  shows "Render code ct p c = Returned (ctx_of (Render code ct p c))"
    and "body (ctx_of (Render code ct p c)) = body c @ [p]"
    and "wrote (ctx_of (Render code ct p c)) =
           Sent (status c) (Writer_Header (writeContentType ct c))"
proof -
  define c1 where "c1 = writeContentType ct (c_Status code c)"
  have c1: "\<not> Written c1" "body c1 = body c" "status c1 = status c"
    "Writer_Header c1 = Writer_Header (writeContentType ct c)"
    using assms(1,2) by (simp_all add: c1_def c_Status_status) (simp add: writeContentType_def)
  have now: "WriteHeaderNow c1 = Returned (c1\<lparr>wrote := Sent (status c) (Writer_Header c1)\<rparr>)"
    using assms(3) c1 WriteHeaderNow_final [of c1] by simp
  from assms(1) have run: "Render code ct p c = Write p c1"
    by (simp add: Render_def Let_def c1_def bodyAllowedForStatus_def)
  show "Render code ct p c = Returned (ctx_of (Render code ct p c))"
    unfolding run by (simp add: Write_def now)
  show "body (ctx_of (Render code ct p c)) = body c @ [p]"
    unfolding run by (simp add: Write_def now http_Write_def WriteHeader_if_none_def c1 Let_def)
  show "wrote (ctx_of (Render code ct p c)) =
      Sent (status c) (Writer_Header (writeContentType ct c))"
    unfolding run by (simp add: Write_def now http_Write_def WriteHeader_if_none_def c1 Let_def)
qed

text \<open>
  A positive code that has not three digits is recorded, and net/http refuses it: the
  call panics, with the header counted as written, nothing sent and no body.
\<close>

lemma Render_refused:
  assumes "0 < code" and "code < 100 \<or> 999 < code" and "\<not> Written c"
  shows "Render code ct p c = Panicked (ctx_of (Render code ct p c))"
    and "body (ctx_of (Render code ct p c)) = body c"
    and "wrote (ctx_of (Render code ct p c)) = Pending"
proof -
  define c1 where "c1 = writeContentType ct (c_Status code c)"
  have c1: "\<not> Written c1" "body c1 = body c" "status c1 = code"
    using assms(1,3) by (simp_all add: c1_def c_Status_status)
  have now: "WriteHeaderNow c1 = Panicked (c1\<lparr>wrote := Pending\<rparr>)"
    using assms(2) c1 WriteHeaderNow_refused [of c1] by simp
  from assms(2) have run: "Render code ct p c = Write p c1"
    by (auto simp: Render_def Let_def c1_def bodyAllowedForStatus_def)
  show "Render code ct p c = Panicked (ctx_of (Render code ct p c))"
    unfolding run by (simp add: Write_def now)
  show "body (ctx_of (Render code ct p c)) = body c"
    unfolding run by (simp add: Write_def now c1)
  show "wrote (ctx_of (Render code ct p c)) = Pending"
    unfolding run by (simp add: Write_def now)
qed

text \<open>\<open>c.AbortWithStatus\<close> with such a code returns as well.\<close>

lemma c_AbortWithStatus_final:
  assumes "final_status code"
  shows "c_AbortWithStatus code c = Returned (ctx_of (c_AbortWithStatus code c))"
    and "\<not> Written c \<Longrightarrow> wrote (ctx_of (c_AbortWithStatus code c)) = Sent code (Writer_Header c)"
    and "Written c \<Longrightarrow> c_AbortWithStatus code c = Returned c"
proof -
  from assms have pos: "0 < code" by (simp add: final_status_def)
  have now: "WriteHeaderNow (c_Status code c) =
      (if Written c then Returned c
       else Returned ((c_Status code c)\<lparr>wrote := Sent code (Writer_Header c)\<rparr>))"
    using assms pos WriteHeaderNow_final [of "c_Status code c"]
    by (auto simp: WriteHeaderNow_Written c_Status_status c_Status_def Written_def)
  show "c_AbortWithStatus code c = Returned (ctx_of (c_AbortWithStatus code c))"
    by (simp add: c_AbortWithStatus_def now)
  show "wrote (ctx_of (c_AbortWithStatus code c)) = Sent code (Writer_Header c)" if "\<not> Written c"
    using that by (simp add: c_AbortWithStatus_def now)
  show "c_AbortWithStatus code c = Returned c" if "Written c"
    using that by (simp add: c_AbortWithStatus_def now)
qed

subsection \<open>Header maps\<close>

lemma canonical_literals [simp]:
  "CanonicalMIMEHeaderKey ''User-Agent'' = ''User-Agent''"
  "CanonicalMIMEHeaderKey ''Accept'' = ''Accept''"
  "CanonicalMIMEHeaderKey ''Content-Type'' = ''Content-Type''"
  by code_simp+

lemma Header_values_update:
  "Header_values (AList.update k vs h) key = (if k = key then vs else Header_values h key)"
  by (simp add: Header_values_def update_conv')

lemma Header_values_Add:
  "Header_values (Header_Add h k v) key =
     (if CanonicalMIMEHeaderKey k = key then Header_values h key @ [v] else Header_values h key)"
  by (auto simp: Header_Add_def Header_values_update)

lemma Header_values_Set:
  "Header_values (Header_Set h k v) key =
     (if CanonicalMIMEHeaderKey k = key then [v] else Header_values h key)"
  by (simp add: Header_Set_def Header_values_update)

lemma Header_values_Del:
  "Header_values (Header_Del h k) key =
     (if CanonicalMIMEHeaderKey k = key then [] else Header_values h key)"
  by (simp add: Header_Del_def Header_values_def delete_conv')

text \<open>The inner loop of lines 52 to 54 appends the values to those of one key.\<close>

lemma add_values:
  "Header_values (Header (fold (\<lambda>v req. req\<lparr>Header := Header_Add (Header req) k v\<rparr>) vs req)) key =
     (if CanonicalMIMEHeaderKey k = key then Header_values (Header req) key @ vs
      else Header_values (Header req) key)"
  by (induction vs arbitrary: req) (simp_all add: Header_values_Add)

lemma add_values_rest:
  "Method (fold (\<lambda>v req. req\<lparr>Header := Header_Add (Header req) k v\<rparr>) vs req) = Method req"
  "URL (fold (\<lambda>v req. req\<lparr>Header := Header_Add (Header req) k v\<rparr>) vs req) = URL req"
  by (induction vs arbitrary: req) simp_all

lemma copy_request_headers_values:
  "Header_values (Header (copy_request_headers hdr req)) key =
     Header_values (Header req) key @
     concat (map snd (filter (\<lambda>(k, vs). CanonicalMIMEHeaderKey k = key) hdr))"
  unfolding copy_request_headers_def
  by (induction hdr arbitrary: req) (auto simp: add_values)

lemma copy_request_headers_rest:
  "Method (copy_request_headers hdr req) = Method req"
  "URL (copy_request_headers hdr req) = URL req"
  unfolding copy_request_headers_def
  by (induction hdr arbitrary: req) (auto simp: add_values_rest)

lemma default_values:
  "Header_values (Header_Set (Header_Set [] ''User-Agent'' ''PostmanRuntime/7.36.1'')
      ''Accept'' ''application/json'') key = Header_values default_headers key"
  by (simp add: Header_values_Set) (auto simp: Header_values_def default_headers_def)

text \<open>
  The inner loop of lines 80 to 82 goes through \<open>c.Header\<close>, which sets and does not add:
  of the values of one key the last one stays, and an empty last value removes the key.
\<close>

lemma Header_values_c_Header:
  "Header_values (Writer_Header (c_Header k v c)) key =
     (if CanonicalMIMEHeaderKey k = key then (if v = [] then [] else [v])
      else Header_values (Writer_Header c) key)"
  by (simp add: c_Header_def Header_values_Set Header_values_Del)


lemma set_values_rest [simp]:
  "Request (fold (\<lambda>v c. c_Header k v c) vs c) = Request c"
  "Params (fold (\<lambda>v c. c_Header k v c) vs c) = Params c"
  "status (fold (\<lambda>v c. c_Header k v c) vs c) = status c"
  "wrote (fold (\<lambda>v c. c_Header k v c) vs c) = wrote c"
  "interim (fold (\<lambda>v c. c_Header k v c) vs c) = interim c"
  "Written (fold (\<lambda>v c. c_Header k v c) vs c) = Written c"
  "body (fold (\<lambda>v c. c_Header k v c) vs c) = body c"
  "sent (fold (\<lambda>v c. c_Header k v c) vs c) = sent c"
  by (induction vs arbitrary: c) simp_all

lemma copy_response_headers_rest [simp]:
  "Request (copy_response_headers hdr c) = Request c"
  "Params (copy_response_headers hdr c) = Params c"
  "status (copy_response_headers hdr c) = status c"
  "wrote (copy_response_headers hdr c) = wrote c"
  "interim (copy_response_headers hdr c) = interim c"
  "Written (copy_response_headers hdr c) = Written c"
  "body (copy_response_headers hdr c) = body c"
  "sent (copy_response_headers hdr c) = sent c"
  unfolding copy_response_headers_def
  by (induction hdr arbitrary: c) auto


subsection \<open>URLs and http.NewRequest\<close>

lemma valid_escapes_no_percent: "CHR ''%'' \<notin> set s \<Longrightarrow> valid_escapes s"
  by (induction s) auto

text \<open>A URL without control characters and percent signs parses.\<close>

lemma url_Parse_plain:
  assumes "plain url"
  shows "url_Parse url = None"
proof -
  from assms have ctl: "\<forall>ch \<in> set url. \<not> isCTL ch" and pct: "CHR ''%'' \<notin> set url"
    by (auto simp: plain_def list_all_iff)
  have "set (takeWhile (\<lambda>ch. ch \<noteq> CHR ''#'') url) \<subseteq> set url"
    by (auto dest: set_takeWhileD)
  with ctl have 1: "\<not> list_ex isCTL (takeWhile (\<lambda>ch. ch \<noteq> CHR ''#'') url)"
    by (auto simp: list_ex_iff)
  have "set (takeWhile (\<lambda>ch. ch \<noteq> CHR ''?'') (takeWhile (\<lambda>ch. ch \<noteq> CHR ''#'') url)) \<subseteq> set url"
    by (auto dest!: set_takeWhileD)
  with pct have 2:
    "valid_escapes (takeWhile (\<lambda>ch. ch \<noteq> CHR ''?'') (takeWhile (\<lambda>ch. ch \<noteq> CHR ''#'') url))"
    by (intro valid_escapes_no_percent) auto
  have "set (drop 1 (dropWhile (\<lambda>ch. ch \<noteq> CHR ''#'') url)) \<subseteq> set url"
    by (auto dest!: in_set_dropD set_dropWhileD)
  with pct have 3: "valid_escapes (drop 1 (dropWhile (\<lambda>ch. ch \<noteq> CHR ''#'') url))"
    by (intro valid_escapes_no_percent) auto
  from 1 2 3 show ?thesis by (simp add: url_Parse_def Let_def)
qed

lemma plain_append [simp]: "plain (s @ t) \<longleftrightarrow> plain s \<and> plain t"
  by (simp add: plain_def)

lemma plain_Cons [simp]: "plain (ch # s) \<longleftrightarrow> \<not> isCTL ch \<and> ch \<noteq> CHR ''%'' \<and> plain s"
  by (simp add: plain_def)

lemma plain_Nil [simp]: "plain []"
  by (simp add: plain_def)

lemma plain_digits: "list_all isDigit s \<Longrightarrow> plain s"
  by (induction s) (auto simp: isDigit_def isCTL_def)

lemma plain_fmt_d: "0 \<le> n \<Longrightarrow> plain (fmt_d n)"
  by (simp add: fmt_d_def plain_digits dec_digits)

lemma plain_base [simp]: "plain TruckersMPAPIBase"
  by (simp add: TruckersMPAPIBase_def isCTL_def)

lemma validMethod_GET [simp]: "validMethod ''GET''"
  by (simp add: validMethod_def isTokenByte_def isUpper_def)

lemma http_NewRequest_cases:
  "(\<exists>err. http_NewRequest method url = (None, Some err)) \<or>
   http_NewRequest method url =
     (Some \<lparr>Method = (if method = [] then ''GET'' else method), URL = url, Header = []\<rparr>, None)"
  by (auto simp: http_NewRequest_def Let_def split: option.splits)

lemma http_NewRequest_Some:
  "http_NewRequest method url = (Some req, err) \<Longrightarrow>
   err = None \<and>
   req = \<lparr>Method = (if method = [] then ''GET'' else method), URL = url, Header = []\<rparr>"
  using http_NewRequest_cases [of "method" "url"] by auto

text \<open>A GET request for a path without control characters and percent signs is built.\<close>

lemma http_NewRequest_GET:
  "plain endpoint \<Longrightarrow>
   http_NewRequest ''GET'' (TruckersMPAPIBase @ endpoint) =
     (Some \<lparr>Method = ''GET'', URL = TruckersMPAPIBase @ endpoint, Header = []\<rparr>, None)"
  by (simp add: http_NewRequest_def url_Parse_plain)

subsection \<open>The forwarder, outcome by outcome\<close>

lemma proxyRequest_panics:
  "http_NewRequest (Method (Request c)) (TruckersMPAPIBase @ endpoint) = (None, err) \<Longrightarrow>
   proxyRequest env c endpoint = Panicked c"
  by (simp add: proxyRequest_def)

lemma proxyRequest_Do_fails:
  assumes "http_NewRequest (Method (Request c)) (TruckersMPAPIBase @ endpoint) = (Some req, e)"
    and "client_Do env (upstream_request c endpoint) = Inl err"
  shows "proxyRequest env c endpoint =
     c_JSON 500 (error_H ''Failed to fetch data from TruckersMP API'')
       (c\<lparr>sent := sent c @ [upstream_request c endpoint]\<rparr>)"
  using http_NewRequest_Some [OF assms(1)] assms
  by (simp add: proxyRequest_def upstream_request_def Let_def)

lemma proxyRequest_read_fails:
  assumes "http_NewRequest (Method (Request c)) (TruckersMPAPIBase @ endpoint) = (Some req, e)"
    and "client_Do env (upstream_request c endpoint) = Inr resp"
    and "Body resp = Inl err"
  shows "proxyRequest env c endpoint =
     c_JSON 500 (error_H ''Failed to read response'')
       (c\<lparr>sent := sent c @ [upstream_request c endpoint]\<rparr>)"
  using http_NewRequest_Some [OF assms(1)] assms
  by (simp add: proxyRequest_def upstream_request_def Let_def)

lemma proxyRequest_json:
  assumes "http_NewRequest (Method (Request c)) (TruckersMPAPIBase @ endpoint) = (Some req, e)"
    and "client_Do env (upstream_request c endpoint) = Inr resp"
    and "Body resp = Inr bytes"
    and "json_Unmarshal env bytes = Inr jsonResponse"
  shows "proxyRequest env c endpoint =
     c_JSON (StatusCode resp) jsonResponse
       (c_Status (StatusCode resp)
          (copy_response_headers (RespHeader resp)
             (c\<lparr>sent := sent c @ [upstream_request c endpoint]\<rparr>)))"
  using http_NewRequest_Some [OF assms(1)] assms
  by (simp add: proxyRequest_def upstream_request_def Let_def)

lemma proxyRequest_raw:
  assumes "http_NewRequest (Method (Request c)) (TruckersMPAPIBase @ endpoint) = (Some req, e)"
    and "client_Do env (upstream_request c endpoint) = Inr resp"
    and "Body resp = Inr bytes"
    and "json_Unmarshal env bytes = Inl err"
  shows "proxyRequest env c endpoint =
     c_Data (StatusCode resp) (Header_Get (RespHeader resp) ''Content-Type'') bytes
       (c_Status (StatusCode resp)
          (copy_response_headers (RespHeader resp)
             (c\<lparr>sent := sent c @ [upstream_request c endpoint]\<rparr>)))"
  using http_NewRequest_Some [OF assms(1)] assms
  by (simp add: proxyRequest_def upstream_request_def Let_def)

text \<open>
  Once the request exists, exactly one upstream call is made, whatever comes back and
  whether the forwarder returns or panics after it.
\<close>

lemma proxyRequest_sent:
  assumes "http_NewRequest (Method (Request c)) (TruckersMPAPIBase @ endpoint) = (Some req, e)"
  shows "sent (ctx_of (proxyRequest env c endpoint)) = sent c @ [upstream_request c endpoint]"
proof (cases "client_Do env (upstream_request c endpoint)")
  case (Inl err)
  then show ?thesis by (simp add: proxyRequest_Do_fails [OF assms] c_JSON_def)
next
  case resp: (Inr resp)
  show ?thesis
  proof (cases "Body resp")
    case (Inl err)
    with resp show ?thesis by (simp add: proxyRequest_read_fails [OF assms] c_JSON_def)
  next
    case bytes: (Inr bytes)
    show ?thesis
    proof (cases "json_Unmarshal env bytes")
      case (Inl err)
      with resp bytes show ?thesis by (simp add: proxyRequest_raw [OF assms] c_Data_def)
    next
      case (Inr v)
      with resp bytes show ?thesis by (simp add: proxyRequest_json [OF assms] c_JSON_def)
    qed
  qed
qed

text \<open>
  The three messages of the forwarder and the rejection of \<open>validateID\<close> are rendered
  with a code that net/http takes, so these calls return. On a context in which nothing
  is written yet, the caller gets the code, and the value as the body.
\<close>

lemma c_JSON_returns:
  "final_status code \<Longrightarrow> Returned (ctx_of (c_JSON code obj c)) = c_JSON code obj c"
  using Render_final(1) [of code "[''application/json; charset=utf-8'']" "JSON obj" c]
  by (simp add: c_JSON_def)

lemma c_JSON_fresh:
  assumes "final_status code" and "bodyAllowedForStatus code" and "\<not> Written c"
  shows "wire_status (ctx_of (c_JSON code obj c)) = Some code"
    and "wire_body (ctx_of (c_JSON code obj c)) = body c @ [JSON obj]"
    and "status (ctx_of (c_JSON code obj c)) = code"
    and "body (ctx_of (c_JSON code obj c)) = body c @ [JSON obj]"
    and "sent (ctx_of (c_JSON code obj c)) = sent c"
  using assms
  by (simp_all add: c_JSON_def wire_status_def wire_body_def Render_final(2,3) final_status_def)

subsection \<open>validateID and the handlers\<close>

lemma validateID_valid:
  "valid_param (c_Param c name) \<Longrightarrow>
   validateID c name = (Returned c, param_value (c_Param c name), True)"
  by (auto simp: valid_param_def param_value_def validateID_def split: sum.splits)

lemma validateID_invalid:
  "\<not> valid_param (c_Param c name) \<Longrightarrow>
   validateID c name = (Returned (invalid_response name c), 0, False)"
  by (auto simp: valid_param_def validateID_def invalid_response_def c_JSON_returns
      split: sum.splits)

lemma validateID_parsed:
  assumes "Atoi (c_Param c name) = Inr n" and "0 \<le> n"
  shows "validateID c name = (Returned c, n, True)"
  using assms by (simp add: validateID_def)

text \<open>The rejection: one more write to the body, nothing sent upstream, and status 400.\<close>

lemma invalid_response_fields:
  "body (invalid_response name c) = body c @ [JSON (error_H (''Invalid '' @ name @ '' parameter''))]"
  "sent (invalid_response name c) = sent c"
  "\<not> Written c \<Longrightarrow> status (invalid_response name c) = 400"
  "\<not> Written c \<Longrightarrow> wire_status (invalid_response name c) = Some 400"
proof -
  show "body (invalid_response name c) =
      body c @ [JSON (error_H (''Invalid '' @ name @ '' parameter''))]"
    unfolding invalid_response_def c_JSON_def by (simp add: Render_final(2))
  show "sent (invalid_response name c) = sent c"
    unfolding invalid_response_def c_JSON_def by simp
  show "status (invalid_response name c) = 400" if "\<not> Written c"
    unfolding invalid_response_def using that by (simp add: c_JSON_fresh)
  show "wire_status (invalid_response name c) = Some 400" if "\<not> Written c"
    unfolding invalid_response_def using that by (simp add: c_JSON_fresh)
qed

lemma valid_param_value: "valid_param s \<Longrightarrow> 0 \<le> param_value s"
  by (auto simp: valid_param_def param_value_def split: sum.splits)

lemma param_names_simps:
  "param_names Health = []" "param_names Player = [''id'']" "param_names Bans = [''id'']"
  "param_names Servers = []" "param_names GameTime = []" "param_names Events = []"
  "param_names Event = [''id'']" "param_names EventsUser = [''id'']" "param_names Vtc = []"
  "param_names VtcById = [''id'']" "param_names VtcNews = [''id'']"
  "param_names VtcNewsItem = [''id'', ''news_id'']" "param_names VtcRoles = [''id'']"
  "param_names VtcRole = [''id'', ''role_id'']" "param_names VtcMembers = [''id'']"
  "param_names VtcMember = [''id'', ''member_id'']" "param_names VtcEvents = [''id'']"
  "param_names VtcEvent = [''id'', ''event_id'']" "param_names VtcEventsAttending = [''id'']"
  "param_names VtcPartners = [''id'']" "param_names Version = []" "param_names Rules = []"
  by (simp_all add: param_names_def is_param_def)

lemma two_params:
  assumes "name \<in> set [p, q]" and "\<not> valid_param (c_Param c name)"
    and "\<forall>n \<in> set (takeWhile (\<lambda>n. n \<noteq> name) [p, q]). valid_param (c_Param c n)"
  shows "(case validateID c p of
            (Returned c, id', valid) \<Rightarrow>
              if valid
              then (case validateID c q of
                      (Returned c, id2, valid) \<Rightarrow> if valid then F c id' id2 else Returned c
                    | (Panicked c, id2, valid) \<Rightarrow> Panicked c)
              else Returned c
          | (Panicked c, id', valid) \<Rightarrow> Panicked c)
         = Returned (invalid_response name c)"
proof (cases "name = p")
  case True
  with assms(2) show ?thesis by (simp add: validateID_invalid)
next
  case False
  with assms(1) have q: "name = q" by simp
  from False q assms(3) have "valid_param (c_Param c p)" by simp
  with q assms(2) show ?thesis by (simp add: validateID_valid validateID_invalid)
qed

text \<open>
  A handler answers with the rejection of the first parameter that is not valid, and
  with nothing else, whatever the forwarder is.
\<close>

lemma handler_rejects:
  assumes "name \<in> set (param_names rt)" and "\<not> valid_param (c_Param c name)"
    and "\<forall>n \<in> set (takeWhile (\<lambda>n. n \<noteq> name) (param_names rt)). valid_param (c_Param c n)"
  shows "handler env fwd rt c = Returned (invalid_response name c)"
proof (cases rt)
  case VtcNewsItem
  from assms show ?thesis unfolding VtcNewsItem handler.simps param_names_simps by (rule two_params)
next
  case VtcRole
  from assms show ?thesis unfolding VtcRole handler.simps param_names_simps by (rule two_params)
next
  case VtcMember
  from assms show ?thesis unfolding VtcMember handler.simps param_names_simps by (rule two_params)
next
  case VtcEvent
  from assms show ?thesis unfolding VtcEvent handler.simps param_names_simps by (rule two_params)
qed (use assms in \<open>simp_all add: param_names_simps validateID_invalid\<close>)

lemma handler_forwards:
  assumes "rt \<noteq> Health" and "\<forall>name \<in> set (param_names rt). valid_param (c_Param c name)"
  shows "handler env fwd rt c = fwd c (declared_mapping rt c)"
  using assms
  by (cases rt) (simp_all add: param_names_simps declared_mapping_def is_param_def validateID_valid)

text \<open>
  The declared mapping of valid parameters consists of the letters of the pattern,
  slashes and digits, so the upstream request of a route is always built.
\<close>

lemma declared_mapping_plain:
  assumes "\<forall>name \<in> set (param_names rt). valid_param (c_Param c name)"
  shows "plain (declared_mapping rt c)"
  using assms
  by (cases rt)
    (simp_all add: param_names_simps declared_mapping_def is_param_def isCTL_def plain_fmt_d
      valid_param_value)

lemma some_invalid_first:
  assumes "\<exists>n \<in> set ns. \<not> P n"
  shows "\<exists>bad \<in> set ns. \<not> P bad \<and> (\<forall>n \<in> set (takeWhile (\<lambda>n. n \<noteq> bad) ns). P n)"
  using assms
proof (induction ns)
  case Nil
  then show ?case by simp
next
  case (Cons a ns)
  show ?case
  proof (cases "P a")
    case False
    then show ?thesis by (intro bexI [of _ a]) simp_all
  next
    case True
    with Cons.prems have "\<exists>n \<in> set ns. \<not> P n" by auto
    from Cons.IH [OF this] obtain bad where b: "bad \<in> set ns" "\<not> P bad"
      "\<forall>n \<in> set (takeWhile (\<lambda>n. n \<noteq> bad) ns). P n" by blast
    with True have "\<forall>n \<in> set (takeWhile (\<lambda>n. n \<noteq> bad) (a # ns)). P n" by auto
    with b show ?thesis by auto
  qed
qed
subsection \<open>The middleware and the engine\<close>

text \<open>
  Unless the method is OPTIONS, the middleware of lines 121 to 132 passes the context on
  with three more headers and nothing else changed. So every handler starts from a
  context in which nothing is written yet and no content type is set.
\<close>

lemma cors_passes_on:
  assumes "Method (Request c0) \<noteq> ''OPTIONS''"
  shows "\<exists>c. cors env h c0 = h c \<and> Request c = Request c0 \<and> Params c = Params c0 \<and>
           wrote c = wrote c0 \<and> status c = status c0 \<and> body c = body c0 \<and> sent c = sent c0 \<and>
           Header_values (Writer_Header c) ''Content-Type'' =
             Header_values (Writer_Header c0) ''Content-Type''"
proof -
  define c where "c =
     c_Header ''Access-Control-Allow-Headers'' ''Content-Type, Authorization''
       (c_Header ''Access-Control-Allow-Methods'' ''GET, POST, PUT, DELETE, OPTIONS''
          (c_Header ''Access-Control-Allow-Origin'' (if ORIGIN env = [] then ''*'' else ORIGIN env)
             c0))"
  have k: "CanonicalMIMEHeaderKey ''Access-Control-Allow-Origin'' \<noteq> ''Content-Type''"
    "CanonicalMIMEHeaderKey ''Access-Control-Allow-Methods'' \<noteq> ''Content-Type''"
    "CanonicalMIMEHeaderKey ''Access-Control-Allow-Headers'' \<noteq> ''Content-Type''"
    by code_simp+
  have run: "cors env h c0 = h c"
    using assms by (simp add: cors_def Let_def c_def)
  have fields: "Request c = Request c0" "Params c = Params c0" "wrote c = wrote c0"
    "status c = status c0" "body c = body c0" "sent c = sent c0"
    by (simp_all add: c_def)
  have "Header_values (Writer_Header c) ''Content-Type'' =
      Header_values (Writer_Header c0) ''Content-Type''"
    by (simp add: c_def Header_values_c_Header k)
  with run fields show ?thesis by blast
qed

lemma declared_mapping_Params:
  "Params c = Params c' \<Longrightarrow> declared_mapping rt c = declared_mapping rt c'"
proof -
  assume "Params c = Params c'"
  then have "c_Param c = c_Param c'" by (auto simp: c_Param_def fun_eq_iff)
  then show ?thesis unfolding declared_mapping_def by (simp only:)
qed

lemma upstream_request_Request:
  "Request c = Request c' \<Longrightarrow> upstream_request c endpoint = upstream_request c' endpoint"
  by (simp add: upstream_request_def)

lemma Recovery_cong: "h c = h' c' \<Longrightarrow> Recovery h c = Recovery h' c'"
  by (simp add: Recovery_def)

text \<open>
  What gin and net/http make of a chain below \<open>Recovery\<close>. If it returns with the head
  of the response sent, that is the response. If it panics after the header was counted
  as written and before net/http has sent one, \<open>Recovery\<close> can no longer set its 500, and
  net/http completes the response with status 200.
\<close>

lemma served_Returned:
  assumes "h c = Returned c'" and "wrote c' = Sent code hdr"
  shows "finishRequest (and_then (Recovery h c) WriteHeaderNow) = Returned c'"
  using assms
  by (simp add: Recovery_def WriteHeaderNow_def Written_def finishRequest_def
      WriteHeader_if_none_def)

lemma served_Panicked:
  assumes "h c = Panicked c'" and "wrote c' = Pending"
  shows "finishRequest (and_then (Recovery h c) WriteHeaderNow) =
           Returned (c'\<lparr>wrote := Sent 200 (Writer_Header c')\<rparr>)"
proof -
  from assms(2) have w: "Written c'" by (simp add: Written_def)
  then have "Recovery h c = Returned c'"
    using assms(1) by (simp add: Recovery_def c_AbortWithStatus_final(3))
  with w assms(2) show ?thesis
    by (simp add: WriteHeaderNow_Written finishRequest_def WriteHeader_if_none_def)
qed

text \<open>
  A GET request that gin routes to a forwarding route with valid parameters ends in the
  forwarder, called below \<open>Recovery\<close> with the declared mapping on a context in which
  nothing is written, nothing is sent and no content type is set; and the upstream
  request is built.
\<close>

lemma setupRoutes_forwards:
  assumes "Method r = ''GET''" and "getValue env (URL r) = Found rt ps" and "rt \<noteq> Health"
    and "\<forall>name \<in> set (param_names rt). valid_param (c_Param (new_Context r ps) name)"
  shows "\<exists>c. setupRoutes env r =
              Some (finishRequest (and_then
                (Recovery (\<lambda>c. proxyRequest env c (declared_mapping rt (new_Context r ps))) c)
                WriteHeaderNow)) \<and>
           Request c = r \<and> Params c = ps \<and> \<not> Written c \<and> status c = 200 \<and> body c = [] \<and>
           sent c = [] \<and> Header_values (Writer_Header c) ''Content-Type'' = []"
proof -
  from assms(1) have "Method (Request (new_Context r ps)) \<noteq> ''OPTIONS''" by simp
  from cors_passes_on [OF this, of env "handler env (proxyRequest env) rt"]
  obtain c where c: "cors env (handler env (proxyRequest env) rt) (new_Context r ps) =
      handler env (proxyRequest env) rt c"
    "Request c = r" "Params c = ps" "\<not> Written c" "status c = 200" "body c = []" "sent c = []"
    "Header_values (Writer_Header c) ''Content-Type'' = []"
    by (auto simp: Written_def Header_values_def)
  from c(3) assms(4) have "\<forall>name \<in> set (param_names rt). valid_param (c_Param c name)"
    by (simp add: c_Param_def)
  with assms(3) have "handler env (proxyRequest env) rt c =
      proxyRequest env c (declared_mapping rt c)"
    by (rule handler_forwards)
  moreover from c(3) have "declared_mapping rt c = declared_mapping rt (new_Context r ps)"
    by (simp add: declared_mapping_Params)
  ultimately have "Recovery (cors env (handler env (proxyRequest env) rt)) (new_Context r ps) =
      Recovery (\<lambda>c. proxyRequest env c (declared_mapping rt (new_Context r ps))) c"
    using c(1) by (intro Recovery_cong) simp
  with assms(1,2) have "setupRoutes env r =
      Some (finishRequest (and_then
        (Recovery (\<lambda>c. proxyRequest env c (declared_mapping rt (new_Context r ps))) c)
        WriteHeaderNow))"
    by (simp add: setupRoutes_def)
  with c show ?thesis by blast
qed

lemma routed_request_built:
  assumes "Method r = ''GET''"
    and "\<forall>name \<in> set (param_names rt). valid_param (c_Param (new_Context r ps) name)"
  shows "http_NewRequest (Method r) (TruckersMPAPIBase @ declared_mapping rt (new_Context r ps)) =
     (Some \<lparr>Method = ''GET'',
            URL = TruckersMPAPIBase @ declared_mapping rt (new_Context r ps), Header = []\<rparr>, None)"
  using assms by (simp add: http_NewRequest_GET declared_mapping_plain)


subsection \<open>Concrete upstreams\<close>

lemma upstream_fields [simp]:
  "client_Do (upstream outcome decode) req = outcome"
  "json_Unmarshal (upstream outcome decode) = decode"
  "getValue (upstream outcome decode) ''/servers'' = Found Servers []"
  by (simp_all add: upstream_def servers_only_def)

lemma unreachable_fields [simp]:
  "client_Do unreachable req = Inl (Error ''dial tcp: i/o timeout'')"
  "getValue unreachable ''/servers'' = Found Servers []"
  by (simp_all add: unreachable_def)

lemma GET_fields [simp]:
  "Method (GET path) = ''GET''" "URL (GET path) = path" "Header (GET path) = []"
  by (simp_all add: GET_def)

lemma bit_length_bound: "n < 2 ^ k \<Longrightarrow> bit_length n \<le> k"
proof (induction k arbitrary: n)
  case 0
  then show ?case by simp
next
  case (Suc k)
  show ?case
  proof (cases "n = 0")
    case True
    then show ?thesis by simp
  next
    case False
    from Suc.prems have "n div 2 < 2 ^ k" by simp
    from Suc.IH [OF this] False show ?thesis by (subst bit_length.simps) simp
  qed
qed

text \<open>An integer below \<open>2 ^ 53\<close> is a float64, and the conversion keeps it.\<close>

lemma nearest_float64_exact: "n < 2 ^ 53 \<Longrightarrow> nearest_float64 n = n"
  using bit_length_bound [of n 53] by (simp add: nearest_float64_def)

lemma bit_length_examples:
  "bit_length 76561198000000001 = 57" "bit_length 76561198000000000 = 57"
  by simp_all

lemma nearest_float64_examples:
  "nearest_float64 76561198000000001 = 76561198000000000"
  "nearest_float64 76561198000000000 = 76561198000000000"
  by (simp_all add: nearest_float64_def bit_length_examples Let_def)

lemma Unmarshal_integer_examples:
  "Unmarshal_integer ''76561198000000001'' = Inr (GoFloat64 76561198000000000)"
  "Unmarshal_integer ''76561198000000000'' = Inr (GoFloat64 76561198000000000)"
  by (simp_all add: Unmarshal_integer_def isDigit_def digits_value_def nearest_float64_examples)

subsection \<open>The forwarder on a context in which nothing is written yet\<close>

lemma copy_response_headers_sent:
  "copy_response_headers hdr (c\<lparr>sent := s\<rparr>) = (copy_response_headers hdr c)\<lparr>sent := s\<rparr>"
proof -
  have one: "c_Header k v (c\<lparr>sent := s\<rparr>) = (c_Header k v c)\<lparr>sent := s\<rparr>" for k v c
    by (simp add: c_Header_def)
  have inner: "fold (\<lambda>v c. c_Header k v c) vs (c\<lparr>sent := s\<rparr>) =
      (fold (\<lambda>v c. c_Header k v c) vs c)\<lparr>sent := s\<rparr>" for k vs c
    by (induction vs arbitrary: c) (simp_all add: one)
  show ?thesis
    unfolding copy_response_headers_def
    by (induction hdr arbitrary: c) (auto simp: inner)
qed

lemma writeContentType_sent:
  "Writer_Header (writeContentType ct (c\<lparr>sent := s\<rparr>)) = Writer_Header (writeContentType ct c)"
  by (simp add: writeContentType_def)

text \<open>A failed call and a failed read: status 500 and the message of that failure.\<close>

lemma proxyRequest_failure:
  assumes "http_NewRequest (Method (Request c)) (TruckersMPAPIBase @ endpoint) = (Some req, e)"
    and "\<not> Written c"
    and "client_Do env (upstream_request c endpoint) = Inl err \<and>
           msg = ''Failed to fetch data from TruckersMP API'' \<or>
         (\<exists>resp err. client_Do env (upstream_request c endpoint) = Inr resp \<and>
            Body resp = Inl err) \<and> msg = ''Failed to read response''"
  shows "\<exists>c' hdr. proxyRequest env c endpoint = Returned c' \<and> wrote c' = Sent 500 hdr \<and>
           status c' = 500 \<and> body c' = body c @ [JSON (error_H msg)] \<and>
           sent c' = sent c @ [upstream_request c endpoint]"
proof -
  define c1 where "c1 = c\<lparr>sent := sent c @ [upstream_request c endpoint]\<rparr>"
  have c1: "\<not> Written c1" "body c1 = body c" "sent c1 = sent c @ [upstream_request c endpoint]"
    using assms(2) by (simp_all add: c1_def Written_def)
  from assms(3) have run: "proxyRequest env c endpoint = c_JSON 500 (error_H msg) c1"
    by (auto simp: proxyRequest_Do_fails [OF assms(1)] proxyRequest_read_fails [OF assms(1)]
        c1_def)
  have "c_JSON 500 (error_H msg) c1 = Returned (ctx_of (c_JSON 500 (error_H msg) c1))"
    by (simp add: c_JSON_returns)
  moreover have "wrote (ctx_of (c_JSON 500 (error_H msg) c1)) =
      Sent 500 (Writer_Header (writeContentType [''application/json; charset=utf-8''] c1))"
    using c1(1) by (simp add: c_JSON_def Render_final(3))
  moreover have "status (ctx_of (c_JSON 500 (error_H msg) c1)) = 500"
    "body (ctx_of (c_JSON 500 (error_H msg) c1)) = body c @ [JSON (error_H msg)]"
    "sent (ctx_of (c_JSON 500 (error_H msg) c1)) = sent c @ [upstream_request c endpoint]"
    using c1 by (simp_all add: c_JSON_fresh)
  ultimately show ?thesis unfolding run by blast
qed

text \<open>
  A reply whose body has been read. The forwarder hands its status code to
  \<open>c.JSON\<close> or \<open>c.Data\<close>, after the upstream header has been copied; what comes of
  it depends on the code. A code that net/http takes as the status of a response goes
  out, with the body if the code allows one.
\<close>

lemma proxyRequest_relays:
  assumes "http_NewRequest (Method (Request c)) (TruckersMPAPIBase @ endpoint) = (Some req, e)"
    and "\<not> Written c"
    and "client_Do env (upstream_request c endpoint) = Inr resp"
    and "Body resp = Inr bytes"
    and "final_status (StatusCode resp)"
  shows "\<exists>c'. proxyRequest env c endpoint = Returned c' \<and>
           wrote c' = Sent (StatusCode resp) (Writer_Header c') \<and>
           Writer_Header c' =
             Writer_Header (writeContentType
               (case json_Unmarshal env bytes of
                  Inl err \<Rightarrow> [Header_Get (RespHeader resp) ''Content-Type'']
                | Inr v \<Rightarrow> [''application/json; charset=utf-8''])
               (copy_response_headers (RespHeader resp) c)) \<and>
           body c' =
             (if bodyAllowedForStatus (StatusCode resp)
              then body c @ [case json_Unmarshal env bytes of
                               Inl err \<Rightarrow> Data bytes | Inr v \<Rightarrow> JSON v]
              else body c) \<and>
           sent c' = sent c @ [upstream_request c endpoint]"
proof -
  define c2 where "c2 = c_Status (StatusCode resp) (copy_response_headers (RespHeader resp)
      (c\<lparr>sent := sent c @ [upstream_request c endpoint]\<rparr>))"
  define ct where "ct = (case json_Unmarshal env bytes of
      Inl err \<Rightarrow> [Header_Get (RespHeader resp) ''Content-Type'']
    | Inr v \<Rightarrow> [''application/json; charset=utf-8''])"
  define p where "p = (case json_Unmarshal env bytes of Inl err \<Rightarrow> Data bytes | Inr v \<Rightarrow> JSON v)"
  have c2: "\<not> Written c2" "body c2 = body c" "sent c2 = sent c @ [upstream_request c endpoint]"
    "Writer_Header (writeContentType ct c2) =
       Writer_Header (writeContentType ct (copy_response_headers (RespHeader resp) c))"
    using assms(2)
    by (simp_all add: c2_def Written_def copy_response_headers_sent writeContentType_sent)
      (simp add: writeContentType_def)
  have run: "proxyRequest env c endpoint = Render (StatusCode resp) ct p c2"
    by (cases "json_Unmarshal env bytes")
      (simp_all add: proxyRequest_raw [OF assms(1,3,4)] proxyRequest_json [OF assms(1,3,4)]
        c_Data_def c_JSON_def ct_def p_def c2_def)
  let ?c' = "ctx_of (Render (StatusCode resp) ct p c2)"
  have "Render (StatusCode resp) ct p c2 = Returned ?c'"
    using assms(5) by (rule Render_final(1))
  moreover have "wrote ?c' = Sent (StatusCode resp) (Writer_Header ?c')"
    using assms(5) c2(1) by (simp add: Render_final(3))
  moreover have "Writer_Header ?c' =
      Writer_Header (writeContentType ct (copy_response_headers (RespHeader resp) c))"
    by (simp add: c2)
  moreover have "body ?c' =
      (if bodyAllowedForStatus (StatusCode resp) then body c @ [p] else body c)"
    using assms(5) by (simp add: Render_final(2) c2)
  moreover have "sent ?c' = sent c @ [upstream_request c endpoint]"
    by (simp add: c2)
  ultimately show ?thesis unfolding run ct_def p_def by blast
qed

text \<open>
  A code that is not positive is never recorded by gin: the status that the context
  already has goes out, with the body.
\<close>

lemma proxyRequest_ignored:
  assumes "http_NewRequest (Method (Request c)) (TruckersMPAPIBase @ endpoint) = (Some req, e)"
    and "\<not> Written c"
    and "client_Do env (upstream_request c endpoint) = Inr resp"
    and "Body resp = Inr bytes"
    and "StatusCode resp \<le> 0" and "final_status (status c)"
  shows "\<exists>c' hdr. proxyRequest env c endpoint = Returned c' \<and> wrote c' = Sent (status c) hdr \<and>
           body c' = body c @ [case json_Unmarshal env bytes of
                                 Inl err \<Rightarrow> Data bytes | Inr v \<Rightarrow> JSON v]"
proof -
  define c2 where "c2 = c_Status (StatusCode resp) (copy_response_headers (RespHeader resp)
      (c\<lparr>sent := sent c @ [upstream_request c endpoint]\<rparr>))"
  define ct where "ct = (case json_Unmarshal env bytes of
      Inl err \<Rightarrow> [Header_Get (RespHeader resp) ''Content-Type'']
    | Inr v \<Rightarrow> [''application/json; charset=utf-8''])"
  define p where "p = (case json_Unmarshal env bytes of Inl err \<Rightarrow> Data bytes | Inr v \<Rightarrow> JSON v)"
  have c2: "\<not> Written c2" "body c2 = body c" "status c2 = status c"
    using assms(2,5) by (simp_all add: c2_def Written_def c_Status_status)
  have run: "proxyRequest env c endpoint = Render (StatusCode resp) ct p c2"
    by (cases "json_Unmarshal env bytes")
      (simp_all add: proxyRequest_raw [OF assms(1,3,4)] proxyRequest_json [OF assms(1,3,4)]
        c_Data_def c_JSON_def ct_def p_def c2_def)
  from assms(6) c2 have fin: "final_status (status c2)" by simp
  let ?c' = "ctx_of (Render (StatusCode resp) ct p c2)"
  have "Render (StatusCode resp) ct p c2 = Returned ?c'"
    using assms(5) c2(1) fin by (rule Render_ignored(1))
  moreover have "wrote ?c' = Sent (status c) (Writer_Header (writeContentType ct c2))"
    using Render_ignored(3) [OF assms(5) c2(1) fin, of ct p] by (simp add: c2)
  moreover have "body ?c' = body c @ [p]"
    using Render_ignored(2) [OF assms(5) c2(1) fin, of ct p] by (simp add: c2)
  ultimately show ?thesis unfolding run p_def by blast
qed

text \<open>
  A positive code that has not three digits is recorded by gin and refused by net/http:
  the forwarder panics inside \<open>c.JSON\<close> or \<open>c.Data\<close>, with the header counted as written,
  no head of a response sent and nothing written to the body.
\<close>

lemma proxyRequest_refused:
  assumes "http_NewRequest (Method (Request c)) (TruckersMPAPIBase @ endpoint) = (Some req, e)"
    and "\<not> Written c"
    and "client_Do env (upstream_request c endpoint) = Inr resp"
    and "Body resp = Inr bytes"
    and "0 < StatusCode resp" and "StatusCode resp < 100 \<or> 999 < StatusCode resp"
  shows "\<exists>c'. proxyRequest env c endpoint = Panicked c' \<and> wrote c' = Pending \<and> body c' = body c"
proof -
  define c2 where "c2 = c_Status (StatusCode resp) (copy_response_headers (RespHeader resp)
      (c\<lparr>sent := sent c @ [upstream_request c endpoint]\<rparr>))"
  define ct where "ct = (case json_Unmarshal env bytes of
      Inl err \<Rightarrow> [Header_Get (RespHeader resp) ''Content-Type'']
    | Inr v \<Rightarrow> [''application/json; charset=utf-8''])"
  define p where "p = (case json_Unmarshal env bytes of Inl err \<Rightarrow> Data bytes | Inr v \<Rightarrow> JSON v)"
  have c2: "\<not> Written c2" "body c2 = body c"
    using assms(2) by (simp_all add: c2_def Written_def)
  have run: "proxyRequest env c endpoint = Render (StatusCode resp) ct p c2"
    by (cases "json_Unmarshal env bytes")
      (simp_all add: proxyRequest_raw [OF assms(1,3,4)] proxyRequest_json [OF assms(1,3,4)]
        c_Data_def c_JSON_def ct_def p_def c2_def)
  let ?c' = "ctx_of (Render (StatusCode resp) ct p c2)"
  have "Render (StatusCode resp) ct p c2 = Panicked ?c'"
    using assms(5,6) c2(1) by (rule Render_refused(1))
  moreover have "wrote ?c' = Pending"
    using assms(5,6) c2(1) by (rule Render_refused(3))
  moreover have "body ?c' = body c"
    using Render_refused(2) [OF assms(5,6) c2(1), of ct p] by (simp add: c2)
  ultimately show ?thesis unfolding run by blast
qed

text \<open>
  The same through the engine: the response of a routed request is what the forwarder
  leaves if it returns with the head of the response sent, and a response with status 200
  and the body written so far if it panics as above.
\<close>

lemma setupRoutes_served:
  assumes "Method r = ''GET''" and "getValue env (URL r) = Found rt ps" and "rt \<noteq> Health"
    and "\<forall>name \<in> set (param_names rt). valid_param (c_Param (new_Context r ps) name)"
  shows "\<exists>c. Request c = r \<and> \<not> Written c \<and> status c = 200 \<and> body c = [] \<and> sent c = [] \<and>
           Header_values (Writer_Header c) ''Content-Type'' = [] \<and>
           (\<forall>c' code hdr.
              proxyRequest env c (declared_mapping rt (new_Context r ps)) = Returned c' \<longrightarrow>
              wrote c' = Sent code hdr \<longrightarrow> setupRoutes env r = Some (Returned c')) \<and>
           (\<forall>c'.
              proxyRequest env c (declared_mapping rt (new_Context r ps)) = Panicked c' \<longrightarrow>
              wrote c' = Pending \<longrightarrow>
              setupRoutes env r = Some (Returned (c'\<lparr>wrote := Sent 200 (Writer_Header c')\<rparr>)))"
proof -
  from setupRoutes_forwards [OF assms] obtain c where c:
    "setupRoutes env r =
       Some (finishRequest (and_then
         (Recovery (\<lambda>c. proxyRequest env c (declared_mapping rt (new_Context r ps))) c)
         WriteHeaderNow))"
    "Request c = r" "\<not> Written c" "status c = 200" "body c = []" "sent c = []"
    "Header_values (Writer_Header c) ''Content-Type'' = []"
    by blast
  have "setupRoutes env r = Some (Returned c')"
    if "proxyRequest env c (declared_mapping rt (new_Context r ps)) = Returned c'"
      and "wrote c' = Sent code hdr" for c' code hdr
    unfolding c(1) using that by (simp add: served_Returned)
  moreover have "setupRoutes env r = Some (Returned (c'\<lparr>wrote := Sent 200 (Writer_Header c')\<rparr>))"
    if "proxyRequest env c (declared_mapping rt (new_Context r ps)) = Panicked c'"
      and "wrote c' = Pending" for c'
    unfolding c(1) using that by (simp add: served_Panicked)
  ultimately show ?thesis using c(2-7) by blast
qed

subsection \<open>The response to a forwarded request\<close>

text \<open>
  The four ways in which a GET request that gin routes to a forwarding route with valid
  parameters is answered, by what the upstream call gives.
\<close>

lemma served_failure:
  assumes "Method r = ''GET''" and "getValue env (URL r) = Found rt ps" and "rt \<noteq> Health"
    and "\<forall>name \<in> set (param_names rt). valid_param (c_Param (new_Context r ps) name)"
    and "client_Do env (upstream_request (new_Context r ps)
             (declared_mapping rt (new_Context r ps))) = Inl err \<and>
           msg = ''Failed to fetch data from TruckersMP API'' \<or>
         (\<exists>resp err. client_Do env (upstream_request (new_Context r ps)
             (declared_mapping rt (new_Context r ps))) = Inr resp \<and> Body resp = Inl err) \<and>
           msg = ''Failed to read response''"
  shows "\<exists>c. setupRoutes env r = Some (Returned c) \<and> wire_status c = Some 500 \<and>
           wire_body c = [JSON (error_H msg)] \<and>
           sent c = [upstream_request (new_Context r ps) (declared_mapping rt (new_Context r ps))]"
proof -
  let ?path = "declared_mapping rt (new_Context r ps)"
  from setupRoutes_served [OF assms(1-4)] obtain c where c:
    "Request c = r" "\<not> Written c" "body c = []" "sent c = []"
    and ret: "\<And>c' code hdr. proxyRequest env c ?path = Returned c' \<Longrightarrow> wrote c' = Sent code hdr \<Longrightarrow>
      setupRoutes env r = Some (Returned c')"
    by blast
  have new: "http_NewRequest (Method (Request c)) (TruckersMPAPIBase @ ?path) =
      (Some \<lparr>Method = ''GET'', URL = TruckersMPAPIBase @ ?path, Header = []\<rparr>, None)"
    using routed_request_built [OF assms(1,4)] c(1) assms(1) by simp
  have req: "upstream_request c ?path = upstream_request (new_Context r ps) ?path"
    using c(1) by (simp add: upstream_request_Request)
  from proxyRequest_failure [OF new c(2), of env err msg] assms(5) req
  obtain c' hdr where c': "proxyRequest env c ?path = Returned c'" "wrote c' = Sent 500 hdr"
    "body c' = body c @ [JSON (error_H msg)]" "sent c' = sent c @ [upstream_request c ?path]"
    by auto
  from ret [OF c'(1,2)] c' c req show ?thesis
    by (simp add: wire_status_def wire_body_def)
qed

lemma served_reply:
  assumes "Method r = ''GET''" and "getValue env (URL r) = Found rt ps" and "rt \<noteq> Health"
    and "\<forall>name \<in> set (param_names rt). valid_param (c_Param (new_Context r ps) name)"
    and "client_Do env (upstream_request (new_Context r ps)
           (declared_mapping rt (new_Context r ps))) = Inr resp"
    and "Body resp = Inr bytes"
    and "final_status (StatusCode resp)"
  shows "\<exists>c c0. setupRoutes env r = Some (Returned c) \<and>
           wire_status c = Some (StatusCode resp) \<and>
           wire_body c =
             (if bodyAllowedForStatus (StatusCode resp)
              then [case json_Unmarshal env bytes of Inl err \<Rightarrow> Data bytes | Inr v \<Rightarrow> JSON v]
              else []) \<and>
           sent c = [upstream_request (new_Context r ps) (declared_mapping rt (new_Context r ps))] \<and>
           wire_header c =
             Writer_Header (writeContentType
               (case json_Unmarshal env bytes of
                  Inl err \<Rightarrow> [Header_Get (RespHeader resp) ''Content-Type'']
                | Inr v \<Rightarrow> [''application/json; charset=utf-8''])
               (copy_response_headers (RespHeader resp) c0)) \<and>
           Header_values (Writer_Header c0) ''Content-Type'' = []"
proof -
  let ?path = "declared_mapping rt (new_Context r ps)"
  from setupRoutes_served [OF assms(1-4)] obtain c0 where c0:
    "Request c0 = r" "\<not> Written c0" "body c0 = []" "sent c0 = []"
    "Header_values (Writer_Header c0) ''Content-Type'' = []"
    and ret: "\<And>c' code hdr. proxyRequest env c0 ?path = Returned c' \<Longrightarrow> wrote c' = Sent code hdr \<Longrightarrow>
      setupRoutes env r = Some (Returned c')"
    by blast
  have new: "http_NewRequest (Method (Request c0)) (TruckersMPAPIBase @ ?path) =
      (Some \<lparr>Method = ''GET'', URL = TruckersMPAPIBase @ ?path, Header = []\<rparr>, None)"
    using routed_request_built [OF assms(1,4)] c0(1) assms(1) by simp
  have req: "upstream_request c0 ?path = upstream_request (new_Context r ps) ?path"
    using c0(1) by (simp add: upstream_request_Request)
  from assms(5) req have do: "client_Do env (upstream_request c0 ?path) = Inr resp" by simp
  from proxyRequest_relays [OF new c0(2) do assms(6,7)]
  obtain c' where c': "proxyRequest env c0 ?path = Returned c'"
    "wrote c' = Sent (StatusCode resp) (Writer_Header c')"
    "Writer_Header c' =
       Writer_Header (writeContentType
         (case json_Unmarshal env bytes of
            Inl err \<Rightarrow> [Header_Get (RespHeader resp) ''Content-Type'']
          | Inr v \<Rightarrow> [''application/json; charset=utf-8''])
         (copy_response_headers (RespHeader resp) c0))"
    "body c' =
       (if bodyAllowedForStatus (StatusCode resp)
        then body c0 @ [case json_Unmarshal env bytes of Inl err \<Rightarrow> Data bytes | Inr v \<Rightarrow> JSON v]
        else body c0)"
    "sent c' = sent c0 @ [upstream_request c0 ?path]"
    by blast
  have "setupRoutes env r = Some (Returned c')" using c'(1,2) by (rule ret)
  moreover have "wire_status c' = Some (StatusCode resp)"
    by (simp add: wire_status_def c'(2))
  moreover have "wire_body c' =
      (if bodyAllowedForStatus (StatusCode resp)
       then [case json_Unmarshal env bytes of Inl err \<Rightarrow> Data bytes | Inr v \<Rightarrow> JSON v]
       else [])"
    by (simp add: wire_body_def c'(2,4) c0(3))
  moreover have "sent c' = [upstream_request (new_Context r ps) ?path]"
    by (simp add: c'(5) c0(4) req)
  moreover have "wire_header c' =
      Writer_Header (writeContentType
        (case json_Unmarshal env bytes of
           Inl err \<Rightarrow> [Header_Get (RespHeader resp) ''Content-Type'']
         | Inr v \<Rightarrow> [''application/json; charset=utf-8''])
        (copy_response_headers (RespHeader resp) c0))"
    by (simp add: wire_header_def c'(2)) (simp add: c'(3))
  ultimately show ?thesis using c0(5) by blast
qed

lemma served_ignored:
  assumes "Method r = ''GET''" and "getValue env (URL r) = Found rt ps" and "rt \<noteq> Health"
    and "\<forall>name \<in> set (param_names rt). valid_param (c_Param (new_Context r ps) name)"
    and "client_Do env (upstream_request (new_Context r ps)
           (declared_mapping rt (new_Context r ps))) = Inr resp"
    and "Body resp = Inr bytes"
    and "StatusCode resp \<le> 0"
  shows "\<exists>c. setupRoutes env r = Some (Returned c) \<and> wire_status c = Some 200 \<and>
           wire_body c =
             [case json_Unmarshal env bytes of Inl err \<Rightarrow> Data bytes | Inr v \<Rightarrow> JSON v]"
proof -
  let ?path = "declared_mapping rt (new_Context r ps)"
  from setupRoutes_served [OF assms(1-4)] obtain c0 where c0:
    "Request c0 = r" "\<not> Written c0" "status c0 = 200" "body c0 = []"
    and ret: "\<And>c' code hdr. proxyRequest env c0 ?path = Returned c' \<Longrightarrow> wrote c' = Sent code hdr \<Longrightarrow>
      setupRoutes env r = Some (Returned c')"
    by blast
  have new: "http_NewRequest (Method (Request c0)) (TruckersMPAPIBase @ ?path) =
      (Some \<lparr>Method = ''GET'', URL = TruckersMPAPIBase @ ?path, Header = []\<rparr>, None)"
    using routed_request_built [OF assms(1,4)] c0(1) assms(1) by simp
  have req: "upstream_request c0 ?path = upstream_request (new_Context r ps) ?path"
    using c0(1) by (simp add: upstream_request_Request)
  from assms(5) req have do: "client_Do env (upstream_request c0 ?path) = Inr resp" by simp
  from c0(3) have fin: "final_status (status c0)" by simp
  from proxyRequest_ignored [OF new c0(2) do assms(6,7) fin]
  obtain c' hdr where c': "proxyRequest env c0 ?path = Returned c'"
    "wrote c' = Sent (status c0) hdr"
    "body c' = body c0 @ [case json_Unmarshal env bytes of Inl err \<Rightarrow> Data bytes | Inr v \<Rightarrow> JSON v]"
    by blast
  from ret [OF c'(1,2)] c'(2,3) c0(3,4) show ?thesis
    by (simp add: wire_status_def wire_body_def)
qed

lemma served_refused:
  assumes "Method r = ''GET''" and "getValue env (URL r) = Found rt ps" and "rt \<noteq> Health"
    and "\<forall>name \<in> set (param_names rt). valid_param (c_Param (new_Context r ps) name)"
    and "client_Do env (upstream_request (new_Context r ps)
           (declared_mapping rt (new_Context r ps))) = Inr resp"
    and "Body resp = Inr bytes"
    and "0 < StatusCode resp" and "StatusCode resp < 100 \<or> 999 < StatusCode resp"
  shows "\<exists>c. setupRoutes env r = Some (Returned c) \<and> wire_status c = Some 200 \<and>
           wire_body c = []"
proof -
  let ?path = "declared_mapping rt (new_Context r ps)"
  from setupRoutes_served [OF assms(1-4)] obtain c0 where c0:
    "Request c0 = r" "\<not> Written c0" "body c0 = []"
    and pan: "\<And>c'. proxyRequest env c0 ?path = Panicked c' \<Longrightarrow> wrote c' = Pending \<Longrightarrow>
      setupRoutes env r = Some (Returned (c'\<lparr>wrote := Sent 200 (Writer_Header c')\<rparr>))"
    by blast
  have new: "http_NewRequest (Method (Request c0)) (TruckersMPAPIBase @ ?path) =
      (Some \<lparr>Method = ''GET'', URL = TruckersMPAPIBase @ ?path, Header = []\<rparr>, None)"
    using routed_request_built [OF assms(1,4)] c0(1) assms(1) by simp
  have req: "upstream_request c0 ?path = upstream_request (new_Context r ps) ?path"
    using c0(1) by (simp add: upstream_request_Request)
  from assms(5) req have do: "client_Do env (upstream_request c0 ?path) = Inr resp" by simp
  from proxyRequest_refused [OF new c0(2) do assms(6,7,8)]
  obtain c' where c': "proxyRequest env c0 ?path = Panicked c'" "wrote c' = Pending"
    "body c' = body c0"
    by blast
  from pan [OF c'(1,2)] c'(3) c0(3) show ?thesis
    by (simp add: wire_status_def wire_body_def)
qed



section \<open>The claims\<close>

subsection \<open>Status codes\<close>

text \<open>
  C1, as the code has it. A GET request that gin routes to a forwarding route with valid
  parameters is answered with the status of the upstream reply, if a reply was received
  and its body was read, for every upstream status that net/http sends as the status of a
  response: 101 and 200 to 999, so 4xx and 5xx included. If the call failed or the body
  could not be read, the request is answered with 500. The 400 of a failed validation
  comes before the forwarder: see C4.
\<close>

theorem status_relayed:
  assumes "Method r = ''GET''" and "getValue env (URL r) = Found rt ps" and "rt \<noteq> Health"
    and "\<forall>name \<in> set (param_names rt). valid_param (c_Param (new_Context r ps) name)"
    and "\<forall>resp bytes.
           client_Do env (upstream_request (new_Context r ps)
             (declared_mapping rt (new_Context r ps))) = Inr resp \<longrightarrow>
           Body resp = Inr bytes \<longrightarrow> final_status (StatusCode resp)"
  shows "served_status (setupRoutes env r) =
     Some (case client_Do env (upstream_request (new_Context r ps)
                  (declared_mapping rt (new_Context r ps))) of
             Inl err \<Rightarrow> 500
           | Inr resp \<Rightarrow> (case Body resp of Inl err \<Rightarrow> 500 | Inr bytes \<Rightarrow> StatusCode resp))"
proof (cases "client_Do env (upstream_request (new_Context r ps)
    (declared_mapping rt (new_Context r ps)))")
  case (Inl err)
  with served_failure [OF assms(1-4), of err "''Failed to fetch data from TruckersMP API''"]
  show ?thesis by (auto simp: served_status_def)
next
  case resp: (Inr resp)
  show ?thesis
  proof (cases "Body resp")
    case (Inl err)
    with resp served_failure [OF assms(1-4), of err "''Failed to read response''"]
    show ?thesis by (auto simp: served_status_def)
  next
    case (Inr bytes)
    with resp assms(5) have "final_status (StatusCode resp)" by blast
    from served_reply [OF assms(1-4) resp Inr this] resp Inr
    show ?thesis by (auto simp: served_status_def)
  qed
qed

text \<open>An upstream that answers 404 is relayed as 404; one that cannot be reached gives 500.\<close>

theorem status_relayed_witness:
  "served_status (setupRoutes
      (upstream (reply 404 [(''Content-Type'', [''text/plain''])] ''not found'') no_JSON)
      (GET ''/servers'')) = Some 404 \<and>
   served_status (setupRoutes unreachable (GET ''/servers'')) = Some 500"
proof -
  let ?env = "upstream (reply 404 [(''Content-Type'', [''text/plain''])] ''not found'') no_JSON"
  let ?c = "new_Context (GET ''/servers'') []"
  have 1: "Method (GET ''/servers'') = ''GET''" by simp
  have 2: "getValue ?env (URL (GET ''/servers'')) = Found Servers []"
    "getValue unreachable (URL (GET ''/servers'')) = Found Servers []" by simp_all
  have 3: "Servers \<noteq> Health" by simp
  have 4: "\<forall>name \<in> set (param_names Servers). valid_param (c_Param ?c name)"
    by (simp add: param_names_simps)
  have 5: "\<forall>resp bytes.
      client_Do ?env (upstream_request ?c (declared_mapping Servers ?c)) = Inr resp \<longrightarrow>
      Body resp = Inr bytes \<longrightarrow> final_status (StatusCode resp)"
    by (auto simp: reply_def final_status_def informational_def)
  have 6: "\<forall>resp bytes.
      client_Do unreachable (upstream_request ?c (declared_mapping Servers ?c)) = Inr resp \<longrightarrow>
      Body resp = Inr bytes \<longrightarrow> final_status (StatusCode resp)"
    by simp
  from status_relayed [OF 1 2(1) 3 4 5] status_relayed [OF 1 2(2) 3 4 6]
  show ?thesis by (simp add: reply_def)
qed

text \<open>
  C1 as it is stated, for every status value, fails below 100. The upstream answers
  \<open>GET /servers\<close> with the status 0, and then with the status 99, and a body that is
  no JSON. gin does not record a status that is not positive, so the first response
  goes out with the 200 that the context starts with. net/http refuses a status that has
  not three digits: \<open>c.Data\<close> panics, when gin already counts the header as written,
  so \<open>Recovery\<close> cannot set its 500 and net/http completes the response with 200. In
  both runs a reply was received and its body was read, and the outbound status is
  neither the upstream one nor a synthetic 500 or 400.
\<close>

theorem status_not_relayed:
  "served_status (setupRoutes
      (upstream (reply 0 [(''Content-Type'', [''text/plain''])] ''zero'') no_JSON)
      (GET ''/servers'')) = Some 200 \<and>
   served_status (setupRoutes
      (upstream (reply 99 [(''Content-Type'', [''text/plain''])] ''odd'') no_JSON)
      (GET ''/servers'')) = Some 200"
proof -
  let ?c = "new_Context (GET ''/servers'') []"
  have 1: "Method (GET ''/servers'') = ''GET''" by simp
  have 2: "getValue (upstream outcome no_JSON) (URL (GET ''/servers'')) = Found Servers []"
    for outcome by simp
  have 3: "Servers \<noteq> Health" by simp
  have 4: "\<forall>name \<in> set (param_names Servers). valid_param (c_Param ?c name)"
    by (simp add: param_names_simps)
  have 5: "client_Do (upstream (reply code hdr bytes) no_JSON)
      (upstream_request ?c (declared_mapping Servers ?c)) =
      Inr \<lparr>StatusCode = code, RespHeader = hdr, Body = Inr bytes\<rparr>" for code hdr bytes
    by (simp add: reply_def)
  from served_ignored [OF 1 2 3 4 5, of 0 "[(''Content-Type'', [''text/plain''])]" "''zero''"]
    served_refused [OF 1 2 3 4 5, of 99 "[(''Content-Type'', [''text/plain''])]" "''odd''"]
  show ?thesis by (auto simp: served_status_def)
qed

subsection \<open>Failures of the forwarder\<close>



subsection \<open>Bodies\<close>

text \<open>
  C3, at a body on which the code loses content. The upstream answers with the JSON
  document \<open>76561198000000001\<close>; the decoder turns the number into the nearest float64,
  and the outbound body is the JSON text of 76561198000000000. The upstream document
  \<open>76561198000000000\<close> gives the very same outbound body, so the outbound body cannot
  have the content of both.
\<close>

theorem lossy_number_relayed:
  "body (ctx_of (proxyRequest
      (upstream (reply 200 [(''Content-Type'', [''application/json''])] ''76561198000000001'')
         Unmarshal_integer)
      (new_Context (GET ''/player/1'') [(''id'', ''1'')]) ''/player/1'')) =
     [JSON (GoFloat64 76561198000000000)] \<and>
   body (ctx_of (proxyRequest
      (upstream (reply 200 [(''Content-Type'', [''application/json''])] ''76561198000000000'')
         Unmarshal_integer)
      (new_Context (GET ''/player/1'') [(''id'', ''1'')]) ''/player/1'')) =
     [JSON (GoFloat64 76561198000000000)]"
proof -
  have new: "http_NewRequest
      (Method (Request (new_Context (GET ''/player/1'') [(''id'', ''1'')])))
      (TruckersMPAPIBase @ ''/player/1'') =
      (Some \<lparr>Method = ''GET'', URL = TruckersMPAPIBase @ ''/player/1'', Header = []\<rparr>, None)"
    by (simp add: http_NewRequest_GET isCTL_def)
  show ?thesis
    by (simp add: proxyRequest_json [OF new, where bytes = "''76561198000000001''"]
        proxyRequest_json [OF new, where bytes = "''76561198000000000''"]
        reply_def Unmarshal_integer_examples c_JSON_def Render_final(2))
qed




subsection \<open>The upstream request\<close>

text \<open>
  C5. When the upstream request can be built, the one request that the forwarder sends
  has, under every key, first the value that lines 40 and 41 set for it (User-Agent,
  Accept) and then all the values that the inbound request has under that key, in their
  order: inbound values are added and replace nothing.
\<close>

theorem upstream_headers:
  assumes "http_NewRequest (Method (Request c)) (TruckersMPAPIBase @ endpoint) = (Some req, None)"
  shows "sent (ctx_of (proxyRequest env c endpoint)) = sent c @ [upstream_request c endpoint] \<and>
         (\<forall>key. Header_values (Header (upstream_request c endpoint)) key =
                 Header_values default_headers key @
                 concat (map snd (filter (\<lambda>(k, vs). CanonicalMIMEHeaderKey k = key)
                                         (Header (Request c)))))"
  by (simp add: proxyRequest_sent [OF assms] upstream_request_def copy_request_headers_values
      default_values)

theorem upstream_headers_witness:
  "Header_values (Header (upstream_request
      (new_Context \<lparr>Method = ''GET'', URL = ''/servers'',
                    Header = [(''Accept'', [''text/html'', ''*/*'']), (''X-Token'', [''abc''])]\<rparr> [])
      ''/servers'')) ''Accept'' = [''application/json'', ''text/html'', ''*/*''] \<and>
   Header_values (Header (upstream_request
      (new_Context \<lparr>Method = ''GET'', URL = ''/servers'',
                    Header = [(''Accept'', [''text/html'', ''*/*'']), (''X-Token'', [''abc''])]\<rparr> [])
      ''/servers'')) ''User-Agent'' = [''PostmanRuntime/7.36.1'']"
proof -
  let ?c = "new_Context \<lparr>Method = ''GET'', URL = ''/servers'',
                    Header = [(''Accept'', [''text/html'', ''*/*'']), (''X-Token'', [''abc''])]\<rparr> []"
  have 1: "http_NewRequest (Method (Request ?c)) (TruckersMPAPIBase @ ''/servers'') =
      (Some \<lparr>Method = ''GET'', URL = TruckersMPAPIBase @ ''/servers'', Header = []\<rparr>, None)"
    by (simp add: http_NewRequest_GET isCTL_def)
  have k: "CanonicalMIMEHeaderKey ''X-Token'' = ''X-Token''" by code_simp
  from upstream_headers [OF 1] show ?thesis
    by (simp add: k Header_values_def default_headers_def)
qed

text \<open>
  C8. On every forwarding route whose parameters are all valid, the handler calls the
  forwarder, whichever it is, with the declared mapping of the route: the local pattern
  with each parameter replaced by the decimal form of its value. The URL of the upstream
  request, if one can be built, is the base URL followed by that path.
\<close>

theorem upstream_path_declared:
  assumes "rt \<noteq> Health" and "\<forall>name \<in> set (param_names rt). valid_param (c_Param c name)"
  shows "(\<forall>fwd. handler env fwd rt c = fwd c (declared_mapping rt c)) \<and>
         map URL (sent (ctx_of (handler env (proxyRequest env) rt c))) =
           map URL (sent c) @
           (case fst (http_NewRequest (Method (Request c))
                   (TruckersMPAPIBase @ declared_mapping rt c)) of
              None \<Rightarrow> []
            | Some req \<Rightarrow> [TruckersMPAPIBase @ declared_mapping rt c])"
proof -
  have fwd: "\<forall>fwd. handler env fwd rt c = fwd c (declared_mapping rt c)"
    using assms by (simp add: handler_forwards)
  have "map URL (sent (ctx_of (proxyRequest env c endpoint))) =
          map URL (sent c) @
          (case fst (http_NewRequest (Method (Request c)) (TruckersMPAPIBase @ endpoint)) of
             None \<Rightarrow> [] | Some req \<Rightarrow> [TruckersMPAPIBase @ endpoint])" for endpoint
  proof (cases "http_NewRequest (Method (Request c)) (TruckersMPAPIBase @ endpoint)")
    case (Pair r e)
    show ?thesis
    proof (cases r)
      case None
      with Pair show ?thesis by (simp add: proxyRequest_panics)
    next
      case (Some req)
      with Pair have new:
        "http_NewRequest (Method (Request c)) (TruckersMPAPIBase @ endpoint) = (Some req, e)"
        by simp
      then show ?thesis
        by (simp add: proxyRequest_sent [OF new] upstream_request_def copy_request_headers_rest)
    qed
  qed
  with fwd show ?thesis by simp
qed

text \<open>Inbound \<open>/vtc/5/news/12\<close> goes to upstream \<open>/vtc/5/news/12\<close>.\<close>

theorem upstream_path_declared_witness:
  "declared_mapping VtcNewsItem
     (new_Context (GET ''/vtc/5/news/12'') [(''id'', ''5''), (''news_id'', ''12'')]) =
     ''/vtc/5/news/12'' \<and>
   map URL (sent (ctx_of (handler unreachable (proxyRequest unreachable) VtcNewsItem
     (new_Context (GET ''/vtc/5/news/12'') [(''id'', ''5''), (''news_id'', ''12'')])))) =
     [''https://api.truckersmp.com/v2/vtc/5/news/12'']"
proof -
  let ?c = "new_Context (GET ''/vtc/5/news/12'') [(''id'', ''5''), (''news_id'', ''12'')]"
  have 1: "VtcNewsItem \<noteq> Health" by simp
  have 2: "\<forall>name \<in> set (param_names VtcNewsItem). valid_param (c_Param ?c name)"
    by (simp add: param_names_simps c_Param_def valid_param_examples)
  have 3: "declared_mapping VtcNewsItem ?c = ''/vtc/5/news/12''"
    by (simp add: declared_mapping_def is_param_def c_Param_def valid_param_examples fmt_d_def
        dec.simps digit_char_def)
  have "map URL (sent (ctx_of (handler unreachable (proxyRequest unreachable) VtcNewsItem ?c))) =
      map URL (sent ?c) @
      (case fst (http_NewRequest (Method (Request ?c))
              (TruckersMPAPIBase @ declared_mapping VtcNewsItem ?c)) of
         None \<Rightarrow> []
       | Some req \<Rightarrow> [TruckersMPAPIBase @ declared_mapping VtcNewsItem ?c])"
    using upstream_path_declared [OF 1 2, of unreachable] by (rule conjunct2)
  also have "\<dots> = [''https://api.truckersmp.com/v2/vtc/5/news/12'']"
    by (simp add: 3 http_NewRequest_GET isCTL_def) (simp add: TruckersMPAPIBase_def)
  finally show ?thesis using 3 by (simp del: handler.simps)
qed

subsection \<open>Validation\<close>

text \<open>
  C4. Take a route and one of its path parameters whose string does not parse as an
  integer that is not negative, the parameters validated before it being valid, and a
  context in which nothing is written yet. Then the handler, whatever the forwarder is,
  returns with status 400, which is the status that goes out, with the one body
  \<open>{"error": true, "message": "Invalid <name> parameter"}\<close> for the name of that
  parameter, and with no upstream call made.
\<close>

theorem invalid_parameter_rejected:
  assumes "name \<in> set (param_names rt)" and "\<not> valid_param (c_Param c name)"
    and "\<forall>n \<in> set (takeWhile (\<lambda>n. n \<noteq> name) (param_names rt)). valid_param (c_Param c n)"
    and "\<not> Written c"
  shows "\<exists>c'. handler env fwd rt c = Returned c' \<and> status c' = 400 \<and>
           body c' = body c @ [JSON (GoMap [(''error'', GoBool True),
                       (''message'', GoString (''Invalid '' @ name @ '' parameter''))])] \<and>
           sent c' = sent c \<and> wire_status c' = Some 400"
  using handler_rejects [OF assms(1-3)] assms(4)
  by (simp add: invalid_response_fields error_H_def)

theorem invalid_parameter_rejected_witness:
  "\<not> valid_param ''abc'' \<and>
   (\<exists>c'. handler unreachable (proxyRequest unreachable) Player
            (new_Context (GET ''/player/abc'') [(''id'', ''abc'')]) = Returned c' \<and>
         status c' = 400 \<and>
         body c' = [JSON (GoMap [(''error'', GoBool True),
                                 (''message'', GoString ''Invalid id parameter'')])] \<and>
         sent c' = [] \<and> wire_status c' = Some 400)"
proof -
  let ?c = "new_Context (GET ''/player/abc'') [(''id'', ''abc'')]"
  have 1: "''id'' \<in> set (param_names Player)" by (simp add: param_names_simps)
  have 2: "\<not> valid_param (c_Param ?c ''id'')" by (simp add: c_Param_def valid_param_examples)
  have 3: "\<forall>n \<in> set (takeWhile (\<lambda>n. n \<noteq> ''id'') (param_names Player)).
      valid_param (c_Param ?c n)"
    by (simp add: param_names_simps)
  have 4: "\<not> Written ?c" by simp
  from invalid_parameter_rejected [OF 1 2 3 4, of unreachable "proxyRequest unreachable"]
  show ?thesis by (simp add: valid_param_examples)
qed

text \<open>
  C6. On a route with two path parameters the handler calls the forwarder only if both
  are valid, and then with the declared mapping. If at least one is not valid, it returns
  the rejection of one parameter that is not valid, the same for every forwarder, so the
  forwarder is not called; the body gets that one response and nothing else, no upstream
  call is made, and the status is 400, and goes out, if nothing was written before.
\<close>

theorem two_parameters_one_rejection:
  assumes "length (param_names rt) = 2"
  shows "if \<forall>n \<in> set (param_names rt). valid_param (c_Param c n)
         then \<forall>fwd. handler env fwd rt c = fwd c (declared_mapping rt c)
         else \<exists>bad \<in> set (param_names rt). \<not> valid_param (c_Param c bad) \<and>
                (\<forall>fwd. handler env fwd rt c = Returned (invalid_response bad c)) \<and>
                body (invalid_response bad c) =
                  body c @ [JSON (error_H (''Invalid '' @ bad @ '' parameter''))] \<and>
                sent (invalid_response bad c) = sent c \<and>
                (\<not> Written c \<longrightarrow> status (invalid_response bad c) = 400) \<and>
                (\<not> Written c \<longrightarrow> wire_status (invalid_response bad c) = Some 400)"
proof (cases "\<forall>n \<in> set (param_names rt). valid_param (c_Param c n)")
  case True
  from assms have "rt \<noteq> Health" by (auto simp: param_names_simps)
  with True show ?thesis by (simp add: handler_forwards)
next
  case False
  then have "\<exists>n \<in> set (param_names rt). \<not> valid_param (c_Param c n)" by simp
  from some_invalid_first [OF this] obtain bad where b: "bad \<in> set (param_names rt)"
    "\<not> valid_param (c_Param c bad)"
    "\<forall>n \<in> set (takeWhile (\<lambda>n. n \<noteq> bad) (param_names rt)). valid_param (c_Param c n)"
    by blast
  then have "\<forall>fwd. handler env fwd rt c = Returned (invalid_response bad c)"
    by (simp add: handler_rejects)
  with b have "\<exists>bad \<in> set (param_names rt). \<not> valid_param (c_Param c bad) \<and>
                (\<forall>fwd. handler env fwd rt c = Returned (invalid_response bad c)) \<and>
                body (invalid_response bad c) =
                  body c @ [JSON (error_H (''Invalid '' @ bad @ '' parameter''))] \<and>
                sent (invalid_response bad c) = sent c \<and>
                (\<not> Written c \<longrightarrow> status (invalid_response bad c) = 400) \<and>
                (\<not> Written c \<longrightarrow> wire_status (invalid_response bad c) = Some 400)"
    by (intro bexI [of _ bad]) (simp_all add: invalid_response_fields)
  with False show ?thesis by (simp only: if_False)
qed

text \<open>
  Inbound \<open>/vtc/5/news/x\<close> is rejected for \<open>news_id\<close>, and \<open>/vtc/x/news/y\<close> for
  \<open>id\<close> alone.
\<close>

theorem two_parameters_one_rejection_witness:
  "length (param_names VtcNewsItem) = 2 \<and> \<not> valid_param ''x'' \<and> \<not> valid_param ''y'' \<and>
   (\<forall>fwd. handler unreachable fwd VtcNewsItem
            (new_Context (GET ''/vtc/5/news/x'') [(''id'', ''5''), (''news_id'', ''x'')]) =
          Returned (invalid_response ''news_id''
            (new_Context (GET ''/vtc/5/news/x'') [(''id'', ''5''), (''news_id'', ''x'')]))) \<and>
   status (invalid_response ''news_id''
            (new_Context (GET ''/vtc/5/news/x'') [(''id'', ''5''), (''news_id'', ''x'')])) = 400 \<and>
   (\<forall>fwd. handler unreachable fwd VtcNewsItem
            (new_Context (GET ''/vtc/x/news/y'') [(''id'', ''x''), (''news_id'', ''y'')]) =
          Returned (invalid_response ''id''
            (new_Context (GET ''/vtc/x/news/y'') [(''id'', ''x''), (''news_id'', ''y'')])))"
proof -
  let ?c = "new_Context (GET ''/vtc/5/news/x'') [(''id'', ''5''), (''news_id'', ''x'')]"
  let ?d = "new_Context (GET ''/vtc/x/news/y'') [(''id'', ''x''), (''news_id'', ''y'')]"
  have 1: "length (param_names VtcNewsItem) = 2" by (simp add: param_names_simps)
  have y: "\<not> valid_param ''y''"
    by (simp add: valid_param_def Atoi_def isDigit_def)
  have c: "\<not> (\<forall>n \<in> set (param_names VtcNewsItem). valid_param (c_Param ?c n))"
    by (simp add: param_names_simps c_Param_def valid_param_examples)
  have d: "\<not> (\<forall>n \<in> set (param_names VtcNewsItem). valid_param (c_Param ?d n))"
    by (simp add: param_names_simps c_Param_def valid_param_examples)
  from two_parameters_one_rejection [OF 1, of ?c unreachable] c
  have "\<exists>bad \<in> set (param_names VtcNewsItem). \<not> valid_param (c_Param ?c bad) \<and>
      (\<forall>fwd. handler unreachable fwd VtcNewsItem ?c = Returned (invalid_response bad ?c))"
    by (simp only: if_False) blast
  then have first: "\<forall>fwd. handler unreachable fwd VtcNewsItem ?c =
      Returned (invalid_response ''news_id'' ?c)"
    by (auto simp: param_names_simps c_Param_def valid_param_examples)
  have both: "\<forall>fwd. handler unreachable fwd VtcNewsItem ?d =
      Returned (invalid_response ''id'' ?d)"
    by (simp add: validateID_invalid c_Param_def valid_param_examples)
  have "status (invalid_response ''news_id'' ?c) = 400"
    by (simp add: invalid_response_fields)
  with 1 y first both show ?thesis by (simp del: handler.simps add: valid_param_examples)
qed

text \<open>
  C9. A parameter string that \<open>Atoi\<close> accepts with a value that is not negative passes
  \<open>validateID\<close>, which returns with the context as it is and with the value; the route
  \<open>/player/:id\<close> then forwards to \<open>/player/\<close> followed by the decimal form of the value.
  That form consists of digits, has no leading zero, and parses back to the value, so it
  is the canonical one, whatever the inbound string was.
\<close>

theorem parsed_value_forwarded:
  assumes "Atoi s = Inr n" and "0 \<le> n"
  shows "(c_Param c name = s \<longrightarrow> validateID c name = (Returned c, n, True)) \<and>
         handler env fwd Player (c\<lparr>Params := [(''id'', s)]\<rparr>) =
           fwd (c\<lparr>Params := [(''id'', s)]\<rparr>) (''/player/'' @ fmt_d n) \<and>
         Atoi (fmt_d n) = Inr n \<and> list_all isDigit (fmt_d n) \<and>
         (hd (fmt_d n) = CHR ''0'' \<longrightarrow> n = 0)"
proof -
  from assms have "c_Param (c\<lparr>Params := [(''id'', s)]\<rparr>) ''id'' = s" by (simp add: c_Param_def)
  with assms have "validateID (c\<lparr>Params := [(''id'', s)]\<rparr>) ''id'' =
      (Returned (c\<lparr>Params := [(''id'', s)]\<rparr>), n, True)"
    by (simp add: validateID_parsed)
  then have route: "handler env fwd Player (c\<lparr>Params := [(''id'', s)]\<rparr>) =
           fwd (c\<lparr>Params := [(''id'', s)]\<rparr>) (''/player/'' @ fmt_d n)" by simp
  from assms Atoi_range [OF assms(1)] have again: "Atoi (fmt_d n) = Inr n"
    by (simp add: Atoi_fmt_d)
  from assms(2) have digits: "list_all isDigit (fmt_d n)" by (simp add: fmt_d_def dec_digits)
  from assms(2) have zero: "hd (fmt_d n) = CHR ''0'' \<longrightarrow> n = 0"
    by (simp add: fmt_d_def hd_dec_zero)
  from assms route again digits zero show ?thesis by (simp add: validateID_parsed)
qed

text \<open>Inbound \<open>/player/007\<close> and \<open>/player/+7\<close> are forwarded as \<open>/player/7\<close>.\<close>

theorem parsed_value_forwarded_witness:
  "Atoi ''007'' = Inr 7 \<and>
   handler unreachable (proxyRequest unreachable) Player
     ((new_Context (GET ''/player/007'') [])\<lparr>Params := [(''id'', ''007'')]\<rparr>) =
   proxyRequest unreachable
     ((new_Context (GET ''/player/007'') [])\<lparr>Params := [(''id'', ''007'')]\<rparr>) ''/player/7'' \<and>
   Atoi ''+7'' = Inr 7 \<and>
   handler unreachable (proxyRequest unreachable) Player
     ((new_Context (GET ''/player/+7'') [])\<lparr>Params := [(''id'', ''+7'')]\<rparr>) =
   proxyRequest unreachable
     ((new_Context (GET ''/player/+7'') [])\<lparr>Params := [(''id'', ''+7'')]\<rparr>) ''/player/7''"
proof -
  have 1: "Atoi ''007'' = Inr 7" by (simp add: Atoi_def isDigit_def digits_value_def)
  have 2: "(0::int) \<le> 7" by simp
  have 3: "Atoi ''+7'' = Inr 7" by (simp add: Atoi_def isDigit_def digits_value_def)
  from parsed_value_forwarded [OF 1 2, of "new_Context (GET ''/player/007'') []" "''id''"
      unreachable "proxyRequest unreachable"]
    parsed_value_forwarded [OF 3 2, of "new_Context (GET ''/player/+7'') []" "''id''"
      unreachable "proxyRequest unreachable"] 1 3
  show ?thesis by (simp add: fmt_d_def dec.simps digit_char_def)
qed

subsection \<open>Methods\<close>



end
